theory Spec2Isabelle
  imports Complex_Main "HOL-Library.Word" "HOL-Library.Sublist"
begin

section \<open>JavaScript numbers\<close>

text \<open>
  The library (\<^verbatim>\<open>lib/index.js\<close>) computes with JavaScript numbers, that is IEEE 754
  binary64 values. A finite double is the rational it denotes; the two infinities and
  NaN are separate values. The two zeros are identified: no divisor in the library can
  be a negative zero (the divisors are the literals 1000, 86400, 3600, 60 and 100, the
  window length, which is at least 1, and prices that were checked to be positive).
\<close>

datatype jsnum = Fin rat | PosInf | NegInf | NaN

definition pow2 :: "int \<Rightarrow> rat" where
  "pow2 e = (if 0 \<le> e then 2 ^ nat e else 1 / 2 ^ nat (- e))"

text \<open>The number of binary digits of a positive integer.\<close>

function blen :: "int \<Rightarrow> int" where
  "blen n = (if n \<le> 0 then 0 else 1 + blen (n div 2))"
  by pat_completeness auto
termination
  by (relation "measure nat") auto

declare blen.simps [simp del]

text \<open>For \<open>0 < x\<close>, the exponent \<open>e\<close> with \<open>2^e \<le> x < 2^(e+1)\<close>.\<close>

definition ilog2 :: "rat \<Rightarrow> int" where
  "ilog2 x = (if 1 \<le> x then blen \<lfloor>x\<rfloor> - 1 else - blen (\<lceil>1 / x\<rceil> - 1))"

definition round_half_even :: "rat \<Rightarrow> int" where
  "round_half_even q =
     (let f = \<lfloor>q\<rfloor>; r = q - of_int f
      in if r < 1 / 2 then f else if 1 / 2 < r then f + 1
         else if even f then f else f + 1)"

definition inf_of :: "rat \<Rightarrow> jsnum" where
  "inf_of x = (if 0 < x then PosInf else NegInf)"

text \<open>
  Rounding of an exact result to binary64, to nearest with ties to even: 53 significant
  bits, least normal exponent -1022 (below it the spacing stays \<open>2^-1074\<close>), overflow
  to an infinity from \<open>2^1024 - 2^970\<close> on. The constant 9007199254740992 is \<open>2^53\<close>.
\<close>

definition rnd :: "rat \<Rightarrow> jsnum" where
  "rnd x =
     (if x = 0 then Fin 0
      else let e = ilog2 \<bar>x\<bar> in
        if 1024 \<le> e then inf_of x
        else let ulp = pow2 (max e (- 1022) - 52);
                 m = round_half_even (x / ulp)
             in if e = 1023 \<and> 9007199254740992 \<le> \<bar>m\<bar> then inf_of x
                else Fin (of_int m * ulp))"

fun js_neg :: "jsnum \<Rightarrow> jsnum" where
  "js_neg (Fin a) = Fin (- a)"
| "js_neg PosInf = NegInf"
| "js_neg NegInf = PosInf"
| "js_neg NaN = NaN"

fun js_add :: "jsnum \<Rightarrow> jsnum \<Rightarrow> jsnum" where
  "js_add NaN _ = NaN"
| "js_add _ NaN = NaN"
| "js_add (Fin a) (Fin b) = rnd (a + b)"
| "js_add PosInf NegInf = NaN"
| "js_add NegInf PosInf = NaN"
| "js_add PosInf _ = PosInf"
| "js_add _ PosInf = PosInf"
| "js_add NegInf _ = NegInf"
| "js_add _ NegInf = NegInf"

definition js_sub :: "jsnum \<Rightarrow> jsnum \<Rightarrow> jsnum" where
  "js_sub a b = js_add a (js_neg b)"

fun js_sign :: "jsnum \<Rightarrow> int" where
  "js_sign (Fin a) = (if a = 0 then 0 else if 0 < a then 1 else - 1)"
| "js_sign PosInf = 1"
| "js_sign NegInf = - 1"
| "js_sign NaN = 0"

definition signed_inf :: "int \<Rightarrow> jsnum" where
  "signed_inf s = (if s = 0 then NaN else if 0 < s then PosInf else NegInf)"

fun js_mul :: "jsnum \<Rightarrow> jsnum \<Rightarrow> jsnum" where
  "js_mul NaN _ = NaN"
| "js_mul _ NaN = NaN"
| "js_mul (Fin a) (Fin b) = rnd (a * b)"
| "js_mul a b = signed_inf (js_sign a * js_sign b)"

fun js_div :: "jsnum \<Rightarrow> jsnum \<Rightarrow> jsnum" where
  "js_div NaN _ = NaN"
| "js_div _ NaN = NaN"
| "js_div (Fin a) (Fin b) = (if b = 0 then signed_inf (js_sign (Fin a)) else rnd (a / b))"
| "js_div (Fin a) _ = Fin 0"
| "js_div a (Fin b) = signed_inf (js_sign a * (if b < 0 then - 1 else 1))"
| "js_div _ _ = NaN"

text \<open>The remainder operator \<^verbatim>\<open>%\<close>: the sign of the dividend, and exact.\<close>

definition js_trunc :: "rat \<Rightarrow> int" where
  "js_trunc q = (if 0 \<le> q then \<lfloor>q\<rfloor> else \<lceil>q\<rceil>)"

fun js_rem :: "jsnum \<Rightarrow> jsnum \<Rightarrow> jsnum" where
  "js_rem (Fin a) (Fin b) = (if b = 0 then NaN else Fin (a - b * of_int (js_trunc (a / b))))"
| "js_rem (Fin a) PosInf = Fin a"
| "js_rem (Fin a) NegInf = Fin a"
| "js_rem _ _ = NaN"

fun js_floor :: "jsnum \<Rightarrow> jsnum" where
  "js_floor (Fin a) = Fin (of_int \<lfloor>a\<rfloor>)"
| "js_floor x = x"

fun js_abs :: "jsnum \<Rightarrow> jsnum" where
  "js_abs (Fin a) = Fin \<bar>a\<bar>"
| "js_abs NaN = NaN"
| "js_abs _ = PosInf"

fun js_lt :: "jsnum \<Rightarrow> jsnum \<Rightarrow> bool" where
  "js_lt NaN _ = False"
| "js_lt _ NaN = False"
| "js_lt (Fin a) (Fin b) = (a < b)"
| "js_lt PosInf _ = False"
| "js_lt _ PosInf = True"
| "js_lt _ NegInf = False"
| "js_lt NegInf _ = True"

definition js_gt :: "jsnum \<Rightarrow> jsnum \<Rightarrow> bool" where
  "js_gt a b = js_lt b a"

definition js_le :: "jsnum \<Rightarrow> jsnum \<Rightarrow> bool" where
  "js_le a b = (a \<noteq> NaN \<and> b \<noteq> NaN \<and> \<not> js_lt b a)"

definition js_ge :: "jsnum \<Rightarrow> jsnum \<Rightarrow> bool" where
  "js_ge a b = js_le b a"

text \<open>\<^verbatim>\<open>Math.max\<close> and \<^verbatim>\<open>Math.min\<close> of two numbers: NaN if either is.\<close>

definition Math_max :: "jsnum \<Rightarrow> jsnum \<Rightarrow> jsnum" where
  "Math_max a b = (if a = NaN \<or> b = NaN then NaN else if js_lt a b then b else a)"

definition Math_min :: "jsnum \<Rightarrow> jsnum \<Rightarrow> jsnum" where
  "Math_min a b = (if a = NaN \<or> b = NaN then NaN else if js_lt b a then b else a)"

fun Number_isFinite :: "jsnum \<Rightarrow> bool" where
  "Number_isFinite (Fin a) = True"
| "Number_isFinite _ = False"

text \<open>\<^verbatim>\<open>Number(b)\<close> for a BigInt \<open>b\<close>: the nearest double.\<close>

definition Number_of_BigInt :: "int \<Rightarrow> jsnum" where
  "Number_of_BigInt n = rnd (of_int n)"

text \<open>Truthiness of a number (\<^verbatim>\<open>x || d\<close> takes \<open>d\<close> when \<open>x\<close> is 0 or NaN).\<close>

definition truthy :: "jsnum \<Rightarrow> bool" where
  "truthy x = (x \<noteq> Fin 0 \<and> x \<noteq> NaN)"

text \<open>The doubles written \<^verbatim>\<open>1.0001\<close> and \<^verbatim>\<open>1e-8\<close> in the source.\<close>

definition lit_1_0001 :: rat where
  "lit_1_0001 = 4504049987333233 / 4503599627370496"

definition lit_1e_8 :: rat where
  "lit_1e_8 = 3022314549036573 / 302231454903657293676544"

section \<open>Errors, addresses and language built-ins\<close>

datatype error = Error string | TypeError string | RangeError string

fun message :: "error \<Rightarrow> string" where
  "message (Error m) = m"
| "message (TypeError m) = m"
| "message (RangeError m) = m"

text \<open>
  Token, pool and factory addresses are values of the ABI type \<^verbatim>\<open>address\<close>, 160 bits.
  The ABI decoder renders each as one canonical (checksummed) string of 42 characters,
  so equality of the strings, also after \<^verbatim>\<open>toLowerCase()\<close>, is equality of the values,
  and such a string is never falsy. The proposal address is the caller's string.
\<close>

type_synonym address = "160 word"

definition ZERO :: address where
  "ZERO = 0"

text \<open>
  Built-ins whose results the language leaves to the engine, or that only render text:
  \<^verbatim>\<open>Math.pow\<close> (implementation-approximated), the conversion of a number to a string
  (\<^verbatim>\<open>String(x)\<close>, template literals), \<^verbatim>\<open>toFixed\<close>, and the text of an ISO date for a
  valid time value in milliseconds.
\<close>

record js_builtins =
  Math_pow :: "jsnum \<Rightarrow> jsnum \<Rightarrow> jsnum"
  Number_toString :: "jsnum \<Rightarrow> string"
  Number_toFixed :: "jsnum \<Rightarrow> int \<Rightarrow> string"
  iso_render :: "int \<Rightarrow> string"

text \<open>
  \<^verbatim>\<open>new Date(ms).toISOString()\<close>: a time value that is not finite or exceeds
  8.64e15 ms in magnitude is an invalid date, and \<^verbatim>\<open>toISOString\<close> throws a RangeError.
\<close>

fun valid_time :: "jsnum \<Rightarrow> bool" where
  "valid_time (Fin t) = (\<bar>t\<bar> \<le> 8640000000000000)"
| "valid_time _ = False"

fun time_value :: "jsnum \<Rightarrow> int" where
  "time_value (Fin t) = js_trunc t"
| "time_value _ = 0"

definition Date_toISOString :: "js_builtins \<Rightarrow> jsnum \<Rightarrow> error + string" where
  "Date_toISOString js ms =
     (if valid_time ms then Inr (iso_render js (time_value ms))
      else Inl (RangeError ''Invalid time value''))"

text \<open>\<^verbatim>\<open>p.catch(() => d)\<close>: a failed read is replaced by the default.\<close>

fun catch_default :: "'a \<Rightarrow> error + 'a \<Rightarrow> 'a" where
  "catch_default d (Inl e) = d"
| "catch_default d (Inr v) = v"

text \<open>\<^verbatim>\<open>s || d\<close> for an optional string: absent and empty strings are falsy.\<close>

fun truthy_str :: "string option \<Rightarrow> bool" where
  "truthy_str None = False"
| "truthy_str (Some s) = (s \<noteq> [])"

definition str_or :: "string option \<Rightarrow> string \<Rightarrow> string" where
  "str_or s d = (if truthy_str s then the s else d)"

section \<open>Chain configuration\<close>

record environment =
  GNOSIS_RPC :: "string option"
  ETHEREUM_RPC :: "string option"

record chain_config =
  cfg_name :: string
  cfg_rpcUrl :: string
  cfg_mode :: string
  cfg_factory :: address
  cfg_feeTiers :: "int list option"

text \<open>
  \<^verbatim>\<open>CHAIN_CONFIG[chainId]\<close>: the table has the keys 100 and 1. The factory addresses are
  0xA0864cCA6E114013AB0e27cbd5B6f4c8947da766 and 0x1F98431c8aD98523631AE4a59f267346ea31F984.
\<close>

definition CHAIN_CONFIG :: "environment \<Rightarrow> jsnum \<Rightarrow> chain_config option" where
  "CHAIN_CONFIG env chainId =
     (if chainId = Fin 100 then
        Some \<lparr>cfg_name = ''Gnosis'',
              cfg_rpcUrl = str_or (GNOSIS_RPC env) ''https://rpc.gnosischain.com'',
              cfg_mode = ''algebra'',
              cfg_factory = 916433512605491007402008178854584258953859671910,
              cfg_feeTiers = None\<rparr>
      else if chainId = Fin 1 then
        Some \<lparr>cfg_name = ''Ethereum'',
              cfg_rpcUrl = str_or (ETHEREUM_RPC env) ''https://eth-mainnet.public.blastapi.io'',
              cfg_mode = ''uniswap'',
              cfg_factory = 180374273401342273892298139690832307271870052740,
              cfg_feeTiers = Some [500, 3000, 10000, 100]\<rparr>
      else None)"

section \<open>Provider cache\<close>

text \<open>
  \<^verbatim>\<open>new ethers.providers.JsonRpcProvider(url)\<close> constructs a connection, an object:
  \<open>pid\<close> is its identity, \<open>url\<close> the endpoint it was built for.
\<close>

record connection =
  pid :: nat
  url :: string

text \<open>
  The cache is \<^verbatim>\<open>const providers = {}\<close>, an ordinary object used as a dictionary. Its
  keys are property names, hence strings. Reading \<^verbatim>\<open>providers[key]\<close> yields the object's
  own property of that name if there is one, otherwise the property that the object
  inherits from \<^verbatim>\<open>Object.prototype\<close>, otherwise \<^verbatim>\<open>undefined\<close>. The inherited properties
  are the functions \<^verbatim>\<open>constructor\<close>, \<^verbatim>\<open>toString\<close> and so on, and the prototype itself
  under \<^verbatim>\<open>__proto__\<close>; each is a different value, none is a connection, and all are
  truthy. So the value that \<^verbatim>\<open>getProvider\<close> returns, and that its callers pass on as
  \<^verbatim>\<open>provider\<close>, is a connection or an inherited property, named here by its key.
\<close>

datatype provider = JsonRpcProvider connection | Inherited string

definition Object_prototype :: "string list" where
  "Object_prototype =
     [''constructor'', ''__defineGetter__'', ''__defineSetter__'', ''hasOwnProperty'',
      ''__lookupGetter__'', ''__lookupSetter__'', ''isPrototypeOf'',
      ''propertyIsEnumerable'', ''toString'', ''valueOf'', ''__proto__'', ''toLocaleString'']"

text \<open>
  \<open>providers\<close> holds the own properties of the cache, all of them assigned by
  \<^verbatim>\<open>getProvider\<close>; \<open>next_pid\<close> counts the connections constructed so far.
\<close>

record cache =
  providers :: "string \<rightharpoonup> connection"
  next_pid :: nat

text \<open>The read \<^verbatim>\<open>providers[key]\<close>; \<open>None\<close> is \<^verbatim>\<open>undefined\<close>.\<close>

definition lookup :: "cache \<Rightarrow> string \<Rightarrow> provider option" where
  "lookup c key =
     (case providers c key of
        Some conn \<Rightarrow> Some (JsonRpcProvider conn)
      | None \<Rightarrow> if key \<in> set Object_prototype then Some (Inherited key) else None)"

text \<open>The key \<^verbatim>\<open>rpcUrl || chainId\<close>, as a property name.\<close>

definition cache_key :: "js_builtins \<Rightarrow> jsnum \<Rightarrow> string option \<Rightarrow> string" where
  "cache_key js chainId rpcUrl = str_or rpcUrl (Number_toString js chainId)"

definition getProvider ::
  "js_builtins \<Rightarrow> environment \<Rightarrow> cache \<Rightarrow> jsnum \<Rightarrow> string option \<Rightarrow> (error + provider) \<times> cache" where
  "getProvider js env c chainId rpcUrl =
     (let key = cache_key js chainId rpcUrl in
      case lookup c key of
        Some p \<Rightarrow> (Inr p, c)
      | None \<Rightarrow>
          (case CHAIN_CONFIG env chainId of
             None \<Rightarrow> (Inl (Error (''Unsupported chain '' @ Number_toString js chainId)), c)
           | Some config \<Rightarrow>
               (let conn = \<lparr>pid = next_pid c, url = str_or rpcUrl (cfg_rpcUrl config)\<rparr>
                in (Inr (JsonRpcProvider conn),
                    c\<lparr>providers := (providers c)(key \<mapsto> conn),
                      next_pid := Suc (next_pid c)\<rparr>))))"

text \<open>The cache at process start: \<^verbatim>\<open>const providers = {}\<close>, no own property.\<close>

definition empty_cache :: cache where
  "empty_cache = \<lparr>providers = Map.empty, next_pid = 0\<rparr>"

section \<open>The chain as seen through a provider\<close>

text \<open>
  Every on-chain read is a contract call through a provider; it yields a decoded value
  or is rejected with an error. During one operation a read is a function of the
  provider, the contract and the arguments. \<open>Date_now\<close> is \<^verbatim>\<open>Date.now()\<close> at the start
  of the operation and \<open>Date_now_result\<close> the clock when the result object is built.
  When several reads awaited by one \<^verbatim>\<open>Promise.all\<close> are rejected, the caller sees the
  rejection that happens first in time: \<open>first_rejection\<close> picks it from the rejections
  listed in the order of the calls. The library builds a contract on a connection
  only: a read through an inherited property is rejected ('invalid signer or
  provider'), and a world that is faithful to the library yields an error there.
\<close>

record world =
  read_wrappedOutcome :: "provider \<Rightarrow> string \<Rightarrow> int \<Rightarrow> error + address"
  read_collateralToken1 :: "provider \<Rightarrow> string \<Rightarrow> error + address"
  read_collateralToken2 :: "provider \<Rightarrow> string \<Rightarrow> error + address"
  read_marketName :: "provider \<Rightarrow> string \<Rightarrow> error + string"
  read_poolByPair :: "provider \<Rightarrow> address \<Rightarrow> address \<Rightarrow> address \<Rightarrow> error + address"
  read_getPool :: "provider \<Rightarrow> address \<Rightarrow> address \<Rightarrow> address \<Rightarrow> int \<Rightarrow> error + address"
  read_token0 :: "provider \<Rightarrow> address \<Rightarrow> error + address"
  read_getTimepoints :: "provider \<Rightarrow> address \<Rightarrow> jsnum list \<Rightarrow> error + 56 word list"
  read_observe :: "provider \<Rightarrow> address \<Rightarrow> jsnum list \<Rightarrow> error + 56 word list"
  read_symbol :: "provider \<Rightarrow> address \<Rightarrow> error + string"
  read_decimals :: "provider \<Rightarrow> address \<Rightarrow> error + nat"
  Date_now :: jsnum
  Date_now_result :: jsnum
  first_rejection :: "error list \<Rightarrow> nat"

fun rejections :: "(error + 'a) list \<Rightarrow> error list" where
  "rejections [] = []"
| "rejections (Inl e # rs) = e # rejections rs"
| "rejections (Inr v # rs) = rejections rs"

definition first_rejected :: "world \<Rightarrow> error list \<Rightarrow> error" where
  "first_rejected w es = es ! (first_rejection w es mod length es)"

section \<open>On-chain pool discovery\<close>

record proposal_tokens =
  yesCompany :: address
  noCompany :: address
  yesCurrency :: address
  noCurrency :: address
  companyToken :: address
  currencyToken :: address
  marketName :: string

definition getProposalTokens :: "world \<Rightarrow> provider \<Rightarrow> string \<Rightarrow> error + proposal_tokens" where
  "getProposalTokens w provider proposalAddress =
     (let wo0 = read_wrappedOutcome w provider proposalAddress 0;
          wo1 = read_wrappedOutcome w provider proposalAddress 1;
          wo2 = read_wrappedOutcome w provider proposalAddress 2;
          wo3 = read_wrappedOutcome w provider proposalAddress 3;
          ct = read_collateralToken1 w provider proposalAddress;
          cu = read_collateralToken2 w provider proposalAddress;
          mn = catch_default ''Unknown'' (read_marketName w provider proposalAddress);
          es = rejections [wo0, wo1, wo2, wo3, ct, cu]
      in if es = [] then
           Inr \<lparr>yesCompany = projr wo0, noCompany = projr wo1,
                yesCurrency = projr wo2, noCurrency = projr wo3,
                companyToken = projr ct, currencyToken = projr cu,
                marketName = mn\<rparr>
         else Inl (first_rejected w es))"

text \<open>
  \<^verbatim>\<open>findPool\<close>: \<^verbatim>\<open>config.mode\<close> of a chain id without configuration is a TypeError.
  Every factory read carries \<^verbatim>\<open>.catch(() => ZERO)\<close>.
\<close>

definition findPool ::
  "environment \<Rightarrow> world \<Rightarrow> provider \<Rightarrow> jsnum \<Rightarrow> address \<Rightarrow> address \<Rightarrow> error + address option" where
  "findPool env w provider chainId tokenA tokenB =
     (case CHAIN_CONFIG env chainId of
        None \<Rightarrow> Inl (TypeError ''Cannot read properties of undefined (reading 'mode')'')
      | Some config \<Rightarrow>
          if cfg_mode config = ''algebra'' then
            (let pool = catch_default ZERO (read_poolByPair w provider (cfg_factory config) tokenA tokenB);
                 pool' = (if pool = ZERO
                          then catch_default ZERO (read_poolByPair w provider (cfg_factory config) tokenB tokenA)
                          else pool)
             in Inr (if pool' = ZERO then None else Some pool'))
          else if cfg_mode config = ''uniswap'' then
            (case cfg_feeTiers config of
               None \<Rightarrow> Inl (TypeError ''Cannot read properties of undefined (reading 'map')'')
             | Some tiers \<Rightarrow>
                 (let results = map (\<lambda>fee. catch_default ZERO
                                   (read_getPool w provider (cfg_factory config) tokenA tokenB fee)) tiers
                  in Inr (find (\<lambda>r. r \<noteq> ZERO) results)))
          else Inr None)"

record conditional_pools =
  yesPool :: "address option"
  noPool :: "address option"

definition discoverConditionalPools ::
  "environment \<Rightarrow> world \<Rightarrow> provider \<Rightarrow> jsnum \<Rightarrow> proposal_tokens \<Rightarrow> error + conditional_pools" where
  "discoverConditionalPools env w provider chainId tokens =
     (let y = findPool env w provider chainId (yesCompany tokens) (yesCurrency tokens);
          n = findPool env w provider chainId (noCompany tokens) (noCurrency tokens);
          es = rejections [y, n]
      in if es = [] then Inr \<lparr>yesPool = projr y, noPool = projr n\<rparr>
         else Inl (first_rejected w es))"

record inversion =
  shouldInvert :: bool
  token0 :: address

text \<open>
  \<^verbatim>\<open>detectInversion\<close> compares \<^verbatim>\<open>token0.toLowerCase()\<close> with the company token's
  address in lower case: equality of the two addresses.
\<close>

definition detectInversion :: "world \<Rightarrow> provider \<Rightarrow> address \<Rightarrow> address \<Rightarrow> error + inversion" where
  "detectInversion w provider poolAddress companyTokenAddress =
     (case read_token0 w provider poolAddress of
        Inl e \<Rightarrow> Inl e
      | Inr t0 \<Rightarrow> Inr \<lparr>shouldInvert = (t0 \<noteq> companyTokenAddress), token0 = t0\<rparr>)"

section \<open>TWAP calculation\<close>

record pool_twap =
  rawPrice :: jsnum
  normalizedPrice :: jsnum
  averageTick :: jsnum
  secondsWindow :: jsnum
  inverted :: bool

text \<open>
  \<^verbatim>\<open>calculatePoolTwap\<close>. The oracle returns \<^verbatim>\<open>int56[] tickCumulatives\<close>; an array with
  fewer than two entries makes \<^verbatim>\<open>tickCumulatives[1].toString()\<close> (or the one of index 0)
  a TypeError. The difference is taken on BigInts, converted to a number, and divided
  by the window as numbers.
\<close>

definition calculatePoolTwap ::
  "js_builtins \<Rightarrow> environment \<Rightarrow> world \<Rightarrow> provider \<Rightarrow> jsnum \<Rightarrow> address \<Rightarrow> jsnum \<Rightarrow> bool
     \<Rightarrow> error + pool_twap" where
  "calculatePoolTwap js env w provider chainId poolAddress secondsAgo shouldInv =
     (case CHAIN_CONFIG env chainId of
        None \<Rightarrow> Inl (TypeError ''Cannot read properties of undefined (reading 'mode')'')
      | Some config \<Rightarrow>
          (let secondsWin = Math_max (Fin 1) (js_floor secondsAgo) in
           case (if cfg_mode config = ''algebra''
                 then read_getTimepoints w provider poolAddress [secondsWin, Fin 0]
                 else read_observe w provider poolAddress [secondsWin, Fin 0]) of
             Inl e \<Rightarrow> Inl e
           | Inr tickCumulatives \<Rightarrow>
               if length tickCumulatives < 2 then
                 Inl (TypeError ''Cannot read properties of undefined (reading 'toString')'')
               else
                 (let latest = sint (tickCumulatives ! 1);
                      oldest = sint (tickCumulatives ! 0);
                      tickDelta = latest - oldest;
                      avgTick = js_div (Number_of_BigInt tickDelta) secondsWin;
                      raw = Math_pow js (Fin lit_1_0001) avgTick
                  in if \<not> Number_isFinite raw \<or> js_le raw (Fin 0) then
                       Inl (Error ''Invalid price from oracle'')
                     else
                       Inr \<lparr>rawPrice = raw,
                            normalizedPrice = (if shouldInv then js_div (Fin 1) raw else raw),
                            averageTick = avgTick,
                            secondsWindow = secondsWin,
                            inverted = shouldInv\<rparr>)))"

record token_info =
  info_address :: address
  info_symbol :: string
  info_decimals :: nat

definition getTokenInfo :: "world \<Rightarrow> provider \<Rightarrow> address \<Rightarrow> token_info" where
  "getTokenInfo w provider a =
     \<lparr>info_address = a,
      info_symbol = catch_default ''UNKNOWN'' (read_symbol w provider a),
      info_decimals = catch_default 18 (read_decimals w provider a)\<rparr>"

section \<open>Public API\<close>

fun join_space :: "string list \<Rightarrow> string" where
  "join_space [] = []"
| "join_space [x] = x"
| "join_space (x # y # ys) = x @ '' '' @ join_space (y # ys)"

definition formatDuration :: "js_builtins \<Rightarrow> jsnum \<Rightarrow> string" where
  "formatDuration js seconds =
     (let d = js_floor (js_div seconds (Fin 86400));
          h = js_floor (js_div (js_rem seconds (Fin 86400)) (Fin 3600));
          m = js_floor (js_div (js_rem seconds (Fin 3600)) (Fin 60));
          s = js_floor (js_rem seconds (Fin 60));
          parts = (if js_gt d (Fin 0) then [Number_toString js d @ ''d''] else [])
                @ (if js_gt h (Fin 0) then [Number_toString js h @ ''h''] else [])
                @ (if js_gt m (Fin 0) then [Number_toString js m @ ''m''] else [])
                @ (if js_gt s (Fin 0) then [Number_toString js s @ ''s''] else [])
      in if join_space parts = [] then ''0s'' else join_space parts)"

record options =
  opt_endTimestamp :: "jsnum option"
  opt_days :: "jsnum option"
  opt_rpcUrl :: "string option"

text \<open>\<^verbatim>\<open>x || d\<close> for an optional number.\<close>

fun num_or :: "jsnum option \<Rightarrow> jsnum \<Rightarrow> jsnum" where
  "num_or None d = d"
| "num_or (Some x) d = (if truthy x then x else d)"

record token_addresses =
  ta_yesCompany :: address
  ta_noCompany :: address
  ta_yesCurrency :: address
  ta_noCurrency :: address
  ta_companyToken :: address
  ta_currencyToken :: address

record pool_addresses =
  pa_yes :: "address option"
  pa_no :: "address option"

record missing_pools_result =
  mp_proposalAddress :: string
  mp_chainId :: jsnum
  mp_chain :: string
  mp_marketName :: string
  mp_error :: string
  mp_pools :: pool_addresses
  mp_tokens :: token_addresses

record result_tokens =
  rt_company :: token_info
  rt_currency :: token_info
  rt_yesCompany :: address
  rt_noCompany :: address
  rt_yesCurrency :: address
  rt_noCurrency :: address

record pool_ref =
  pool_address :: address
  pool_inverted :: bool

record result_pools =
  pools_yes :: pool_ref
  pools_no :: pool_ref

record twap_window =
  startTimestamp :: jsnum
  startDate :: string
  endTimestamp :: jsnum
  endDate :: string
  days :: jsnum
  durationSeconds :: jsnum

record countdown =
  cd_seconds :: jsnum
  cd_human :: string

record side_twap =
  price :: jsnum
  side_rawPrice :: jsnum
  side_averageTick :: jsnum
  side_inverted :: bool

record twap_summary =
  twap_yes :: side_twap
  twap_no :: side_twap
  spread :: jsnum
  percentDiff :: string
  winner :: string
  windowSeconds :: jsnum
  windowHours :: string

record twap_result =
  r_proposalAddress :: string
  r_chainId :: jsnum
  r_chain :: string
  r_marketName :: string
  tokens :: result_tokens
  pools :: result_pools
  twapWindow :: twap_window
  status :: string
  timestamp :: string
  timeUntilStart :: "countdown option"
  twap :: "twap_summary option"
  timeRemaining :: "countdown option"
  error :: "string option"

text \<open>
  The two shapes of the object that \<^verbatim>\<open>calculateTwap\<close> returns: the early return when a
  conditional pool is missing, and the full result, whose optional members are absent
  until they are assigned.
\<close>

datatype twap_response = MissingPools missing_pools_result | Twap twap_result

text \<open>The status of the window (the \<^verbatim>\<open>if\<close> chain after "Determine status").\<close>

definition twap_status :: "jsnum \<Rightarrow> jsnum \<Rightarrow> jsnum \<Rightarrow> string" where
  "twap_status now twapStartTimestamp endTs =
     (if js_lt now twapStartTimestamp then ''NOT_STARTED''
      else if js_ge now endTs then ''ENDED''
      else ''ACTIVE'')"

text \<open>The winner: \<^verbatim>\<open>spread > 1e-8 ? 'YES' : spread < -1e-8 ? 'NO' : 'TIE'\<close>.\<close>

definition winner_of :: "jsnum \<Rightarrow> string" where
  "winner_of spr =
     (if js_gt spr (Fin lit_1e_8) then ''YES''
      else if js_lt spr (Fin (- lit_1e_8)) then ''NO''
      else ''TIE'')"

text \<open>The member \<^verbatim>\<open>result.twap\<close>, from the two pool TWAPs.\<close>

definition twap_summary_of :: "js_builtins \<Rightarrow> pool_twap \<Rightarrow> pool_twap \<Rightarrow> jsnum \<Rightarrow> twap_summary" where
  "twap_summary_of js yesTwap noTwap secondsAgo =
     (let spr = js_sub (normalizedPrice yesTwap) (normalizedPrice noTwap);
          win = winner_of spr;
          loser = Math_min (normalizedPrice yesTwap) (normalizedPrice noTwap);
          pct = (if js_gt loser (Fin 0) then js_mul (js_div (js_abs spr) loser) (Fin 100) else Fin 0)
      in \<lparr>twap_yes = \<lparr>price = normalizedPrice yesTwap, side_rawPrice = rawPrice yesTwap,
                      side_averageTick = averageTick yesTwap, side_inverted = inverted yesTwap\<rparr>,
          twap_no = \<lparr>price = normalizedPrice noTwap, side_rawPrice = rawPrice noTwap,
                     side_averageTick = averageTick noTwap, side_inverted = inverted noTwap\<rparr>,
          spread = spr,
          percentDiff = Number_toFixed js pct 4,
          winner = win,
          windowSeconds = secondsAgo,
          windowHours = Number_toFixed js (js_div secondsAgo (Fin 3600)) 2\<rparr>)"

text \<open>
  Step 5 of \<^verbatim>\<open>calculateTwap\<close>: the window to look back, and the \<^verbatim>\<open>try\<close> block with its
  \<^verbatim>\<open>catch\<close>; \<open>result\<close> is the object built before.
\<close>

definition twap_step ::
  "js_builtins \<Rightarrow> environment \<Rightarrow> world \<Rightarrow> provider \<Rightarrow> jsnum \<Rightarrow> address \<Rightarrow> address \<Rightarrow> bool \<Rightarrow> bool
     \<Rightarrow> string \<Rightarrow> jsnum \<Rightarrow> jsnum \<Rightarrow> jsnum \<Rightarrow> jsnum \<Rightarrow> twap_result \<Rightarrow> twap_result" where
  "twap_step js env w provider chainId yesAddr noAddr yesInv noInv
             stat now twapStartTimestamp endTs twapDurationSeconds result =
     (let timeSinceStart = Math_min (js_sub now twapStartTimestamp) twapDurationSeconds;
          secondsAgo = (if stat = ''ENDED'' then twapDurationSeconds else timeSinceStart);
          y = calculatePoolTwap js env w provider chainId yesAddr secondsAgo yesInv;
          n = calculatePoolTwap js env w provider chainId noAddr secondsAgo noInv;
          es = rejections [y, n]
      in if es = [] then
           (let result' = result\<lparr>twap := Some (twap_summary_of js (projr y) (projr n) secondsAgo)\<rparr>
            in if stat = ''ACTIVE'' then
                 result'\<lparr>timeRemaining :=
                            Some \<lparr>cd_seconds = js_sub endTs now,
                                  cd_human = formatDuration js (js_sub endTs now)\<rparr>\<rparr>
               else result')
         else result\<lparr>error := Some (''TWAP calculation failed: '' @ message (first_rejected w es))\<rparr>)"

text \<open>The object built under "Build result".\<close>

definition build_result ::
  "js_builtins \<Rightarrow> world \<Rightarrow> provider \<Rightarrow> string \<Rightarrow> jsnum \<Rightarrow> chain_config \<Rightarrow> proposal_tokens
     \<Rightarrow> address \<Rightarrow> address \<Rightarrow> bool \<Rightarrow> bool \<Rightarrow> twap_window \<Rightarrow> string \<Rightarrow> twap_result" where
  "build_result js w provider proposalAddress chainId config toks yesAddr noAddr yesInv noInv win stat =
     \<lparr>r_proposalAddress = proposalAddress,
      r_chainId = chainId,
      r_chain = cfg_name config,
      r_marketName = marketName toks,
      tokens = \<lparr>rt_company = getTokenInfo w provider (companyToken toks),
                 rt_currency = getTokenInfo w provider (currencyToken toks),
                 rt_yesCompany = yesCompany toks, rt_noCompany = noCompany toks,
                 rt_yesCurrency = yesCurrency toks, rt_noCurrency = noCurrency toks\<rparr>,
      pools = \<lparr>pools_yes = \<lparr>pool_address = yesAddr, pool_inverted = yesInv\<rparr>,
                pools_no = \<lparr>pool_address = noAddr, pool_inverted = noInv\<rparr>\<rparr>,
      twapWindow = win,
      status = stat,
      timestamp = iso_render js (time_value (Date_now_result w)),
      timeUntilStart = None, twap = None, timeRemaining = None, error = None\<rparr>"

text \<open>
  \<^verbatim>\<open>calculateTwap\<close> from the first log line on. The log line of the window calls
  \<^verbatim>\<open>toISOString\<close> on the start and on the end of the window, which throws for an invalid
  date; the other log lines have no effect on the result.
\<close>

definition calculateTwap_with ::
  "js_builtins \<Rightarrow> environment \<Rightarrow> world \<Rightarrow> provider \<Rightarrow> string \<Rightarrow> jsnum \<Rightarrow> chain_config
     \<Rightarrow> jsnum \<Rightarrow> jsnum \<Rightarrow> jsnum \<Rightarrow> error + twap_response" where
  "calculateTwap_with js env w provider proposalAddress chainId config dys now endTs =
     (let twapDurationSeconds = js_mul dys (Fin 86400);
          twapStartTimestamp = js_sub endTs twapDurationSeconds;
          stat = twap_status now twapStartTimestamp endTs
      in case Date_toISOString js (js_mul twapStartTimestamp (Fin 1000)) of
           Inl e \<Rightarrow> Inl e
         | Inr startIso \<Rightarrow>
       (case Date_toISOString js (js_mul endTs (Fin 1000)) of
           Inl e \<Rightarrow> Inl e
         | Inr endIso \<Rightarrow>
       (case getProposalTokens w provider proposalAddress of
           Inl e \<Rightarrow> Inl e
         | Inr toks \<Rightarrow>
       (case discoverConditionalPools env w provider chainId toks of
           Inl e \<Rightarrow> Inl e
         | Inr found_pools \<Rightarrow>
           if yesPool found_pools = None \<or> noPool found_pools = None then
             Inr (MissingPools
               \<lparr>mp_proposalAddress = proposalAddress,
                mp_chainId = chainId,
                mp_chain = cfg_name config,
                mp_marketName = marketName toks,
                mp_error = ''Could not find YES/NO conditional pools on-chain'',
                mp_pools = \<lparr>pa_yes = yesPool found_pools, pa_no = noPool found_pools\<rparr>,
                mp_tokens = \<lparr>ta_yesCompany = yesCompany toks, ta_noCompany = noCompany toks,
                              ta_yesCurrency = yesCurrency toks, ta_noCurrency = noCurrency toks,
                              ta_companyToken = companyToken toks,
                              ta_currencyToken = currencyToken toks\<rparr>\<rparr>)
           else
             (let yesAddr = the (yesPool found_pools);
                  noAddr = the (noPool found_pools);
                  yesInversion = detectInversion w provider yesAddr (yesCompany toks);
                  noInversion = detectInversion w provider noAddr (noCompany toks);
                  es = rejections [yesInversion, noInversion]
              in if es \<noteq> [] then Inl (first_rejected w es)
                 else
                   (let yesInv = shouldInvert (projr yesInversion);
                        noInv = shouldInvert (projr noInversion);
                        win = \<lparr>startTimestamp = twapStartTimestamp, startDate = startIso,
                                endTimestamp = endTs, endDate = endIso,
                                days = dys, durationSeconds = twapDurationSeconds\<rparr>;
                        result = build_result js w provider proposalAddress chainId config toks
                                   yesAddr noAddr yesInv noInv win stat
                    in if stat = ''NOT_STARTED'' then
                         Inr (Twap (result\<lparr>timeUntilStart :=
                                Some \<lparr>cd_seconds = js_sub twapStartTimestamp now,
                                      cd_human = formatDuration js (js_sub twapStartTimestamp now)\<rparr>\<rparr>))
                       else
                         Inr (Twap (twap_step js env w provider chainId yesAddr noAddr yesInv noInv
                                      stat now twapStartTimestamp endTs twapDurationSeconds result))))))))"

text \<open>\<^verbatim>\<open>calculateTwap(proposalAddress, chainId, options)\<close>, with the provider cache.\<close>

definition calculateTwap ::
  "js_builtins \<Rightarrow> environment \<Rightarrow> world \<Rightarrow> cache \<Rightarrow> string \<Rightarrow> jsnum \<Rightarrow> options
     \<Rightarrow> (error + twap_response) \<times> cache" where
  "calculateTwap js env w c proposalAddress chainId opts =
     (case CHAIN_CONFIG env chainId of
        None \<Rightarrow> (Inl (Error (''Unsupported chain '' @ Number_toString js chainId)), c)
      | Some config \<Rightarrow>
          (let dys = num_or (opt_days opts) (Fin 5);
               now = js_floor (js_div (Date_now w) (Fin 1000));
               endTs = num_or (opt_endTimestamp opts) now;
               got = getProvider js env c chainId (opt_rpcUrl opts)
           in case fst got of
                Inl e \<Rightarrow> (Inl e, snd got)
              | Inr provider \<Rightarrow>
                  (calculateTwap_with js env w provider proposalAddress chainId config dys now endTs,
                   snd got)))"

section \<open>Discovery of all six pools\<close>

record token_pair =
  pair_name :: string
  pair_t0 :: address
  pair_t1 :: address

record pool_entry =
  pe_name :: string
  pe_address :: "address option"
  pe_exists :: bool
  pe_inverted :: "bool option"

record discovery_result =
  d_proposalAddress :: string
  d_chainId :: jsnum
  d_chain :: string
  d_marketName :: string
  d_tokens :: result_tokens
  d_pools :: "pool_entry list"
  found :: nat
  total :: nat

definition pairs_of :: "proposal_tokens \<Rightarrow> token_pair list" where
  "pairs_of toks =
     [\<lparr>pair_name = ''YES_COMPANY/YES_CURRENCY (Conditional)'',
       pair_t0 = yesCompany toks, pair_t1 = yesCurrency toks\<rparr>,
      \<lparr>pair_name = ''NO_COMPANY/NO_CURRENCY (Conditional)'',
       pair_t0 = noCompany toks, pair_t1 = noCurrency toks\<rparr>,
      \<lparr>pair_name = ''YES_COMPANY/BASE_CURRENCY (Prediction)'',
       pair_t0 = yesCompany toks, pair_t1 = currencyToken toks\<rparr>,
      \<lparr>pair_name = ''NO_COMPANY/BASE_CURRENCY (Prediction)'',
       pair_t0 = noCompany toks, pair_t1 = currencyToken toks\<rparr>,
      \<lparr>pair_name = ''YES_CURRENCY/BASE_CURRENCY (Prediction)'',
       pair_t0 = yesCurrency toks, pair_t1 = currencyToken toks\<rparr>,
      \<lparr>pair_name = ''NO_CURRENCY/BASE_CURRENCY (Prediction)'',
       pair_t0 = noCurrency toks, pair_t1 = currencyToken toks\<rparr>]"

text \<open>
  The loop \<^verbatim>\<open>for (const pair of pairs)\<close>: one lookup after the other, in the order of
  the list; a failed orientation read ends the operation.
\<close>

fun scan_pairs ::
  "environment \<Rightarrow> world \<Rightarrow> provider \<Rightarrow> jsnum \<Rightarrow> proposal_tokens \<Rightarrow> token_pair list
     \<Rightarrow> error + pool_entry list" where
  "scan_pairs env w provider chainId toks [] = Inr []"
| "scan_pairs env w provider chainId toks (pair # rest) =
     (case findPool env w provider chainId (pair_t0 pair) (pair_t1 pair) of
        Inl e \<Rightarrow> Inl e
      | Inr addr \<Rightarrow>
          (case (if addr \<noteq> None \<and> sublist ''Conditional'' (pair_name pair)
                 then map_sum id Some
                        (detectInversion w provider (the addr)
                           (if prefix ''YES'' (pair_name pair) then yesCompany toks else noCompany toks))
                 else Inr None) of
             Inl e \<Rightarrow> Inl e
           | Inr invn \<Rightarrow>
               (case scan_pairs env w provider chainId toks rest of
                  Inl e \<Rightarrow> Inl e
                | Inr entries \<Rightarrow>
                    Inr (\<lparr>pe_name = pair_name pair,
                          pe_address = addr,
                          pe_exists = (addr \<noteq> None),
                          pe_inverted = map_option shouldInvert invn\<rparr> # entries))))"

definition discoverPools ::
  "js_builtins \<Rightarrow> environment \<Rightarrow> world \<Rightarrow> cache \<Rightarrow> string \<Rightarrow> jsnum \<Rightarrow> options
     \<Rightarrow> (error + discovery_result) \<times> cache" where
  "discoverPools js env w c proposalAddress chainId opts =
     (case CHAIN_CONFIG env chainId of
        None \<Rightarrow> (Inl (Error (''Unsupported chain '' @ Number_toString js chainId
                              @ ''. Use 100 (Gnosis) or 1 (Ethereum)'')), c)
      | Some config \<Rightarrow>
          (let got = getProvider js env c chainId (opt_rpcUrl opts) in
           case fst got of
             Inl e \<Rightarrow> (Inl e, snd got)
           | Inr provider \<Rightarrow>
               (case getProposalTokens w provider proposalAddress of
                  Inl e \<Rightarrow> (Inl e, snd got)
                | Inr toks \<Rightarrow>
                    (case scan_pairs env w provider chainId toks (pairs_of toks) of
                       Inl e \<Rightarrow> (Inl e, snd got)
                     | Inr poolResults \<Rightarrow>
                         (Inr \<lparr>d_proposalAddress = proposalAddress,
                               d_chainId = chainId,
                               d_chain = cfg_name config,
                               d_marketName = marketName toks,
                               d_tokens = \<lparr>rt_company = getTokenInfo w provider (companyToken toks),
                                            rt_currency = getTokenInfo w provider (currencyToken toks),
                                            rt_yesCompany = yesCompany toks, rt_noCompany = noCompany toks,
                                            rt_yesCurrency = yesCurrency toks,
                                            rt_noCurrency = noCurrency toks\<rparr>,
                               d_pools = poolResults,
                               found = length (filter pe_exists poolResults),
                               total = length poolResults\<rparr>,
                          snd got)))))"

section \<open>The invariant of the provider cache\<close>

text \<open>
  Every cached connection was constructed before, no connection is cached under two
  keys, and the cache has no own property under a name that it inherits. It holds of
  the empty cache and \<^verbatim>\<open>getProvider\<close> keeps it.
\<close>

definition cache_ok :: "cache \<Rightarrow> bool" where
  "cache_ok c =
     ((\<forall>k p. providers c k = Some p \<longrightarrow> pid p < next_pid c) \<and>
      (\<forall>k k' p p'. providers c k = Some p \<and> providers c k' = Some p' \<and> pid p = pid p' \<longrightarrow> k = k') \<and>
      (\<forall>k. k \<in> set Object_prototype \<longrightarrow> providers c k = None))"

section \<open>A test fixture\<close>

text \<open>
  Stand-ins for the engine's built-ins, and a small chain: a proposal with outcome
  tokens 11 to 14 and collateral tokens 1 and 2, a YES pool 101 (company token first)
  and a NO pool 102 (found under the swapped order only, currency token first) whose
  oracles report a constant tick of 7 and of -3. \<open>test_pow\<close> is the correctly rounded
  power for integer exponents up to 64 in magnitude; it overflows or underflows for
  exponents at which no power of 1.0001 is a double, and at the exponent -7140000 it is
  the double nearest to the power of 1.0001, the subnormal 17197231743308 * 2^-1074
  (about 8.4966e-311); at the exponent 2097165 + 2^-31 it is the double nearest to
  the power of 1.0001, 6556410931163383 * 2^250 (about 1.1862e91).
\<close>

definition rat_pow :: "rat \<Rightarrow> int \<Rightarrow> rat" where
  "rat_pow x n = (if 0 \<le> n then x ^ nat n else 1 / x ^ nat (- n))"

function dec :: "int \<Rightarrow> string" where
  "dec n = (if n < 10 then [''0123456789'' ! nat n]
            else dec (n div 10) @ [''0123456789'' ! nat (n mod 10)])"
  by pat_completeness auto
termination
  by (relation "measure nat") auto

declare dec.simps [simp del]

fun test_toString :: "jsnum \<Rightarrow> string" where
  "test_toString (Fin q) =
     (if q = of_int \<lfloor>q\<rfloor> then (if q < 0 then ''-'' @ dec (- \<lfloor>q\<rfloor>) else dec \<lfloor>q\<rfloor>)
      else ''?'')"
| "test_toString PosInf = ''Infinity''"
| "test_toString NegInf = ''-Infinity''"
| "test_toString NaN = ''NaN''"

fun test_pow :: "jsnum \<Rightarrow> jsnum \<Rightarrow> jsnum" where
  "test_pow (Fin x) (Fin t) =
     (if t = of_int \<lfloor>t\<rfloor> \<and> \<bar>t\<bar> \<le> 64 then rnd (rat_pow x \<lfloor>t\<rfloor>)
      else if 7100000 < t then PosInf
      else if t < - 7500000 then Fin 0
      else if t = - 7140000 then Fin (17197231743308 * pow2 (- 1074))
      else if t = 4503627544657921 / 2147483648 then Fin (6556410931163383 * pow2 250)
      else NaN)"
| "test_pow _ _ = NaN"

definition test_js :: js_builtins where
  "test_js = \<lparr>Math_pow = test_pow,
              Number_toString = test_toString,
              Number_toFixed = (\<lambda>x d. test_toString (js_floor x)),
              iso_render = (\<lambda>ms. ''t='' @ test_toString (Fin (of_int ms)))\<rparr>"

definition test_env :: environment where
  "test_env = \<lparr>GNOSIS_RPC = None, ETHEREUM_RPC = None\<rparr>"

definition test_oracle :: "provider \<Rightarrow> address \<Rightarrow> jsnum list \<Rightarrow> error + 56 word list" where
  "test_oracle p pool secs =
     (case secs of
        [Fin s, z] \<Rightarrow>
          if pool = 101 then Inr [1000, word_of_int (1000 + 7 * \<lfloor>s\<rfloor>)]
          else if pool = 102 then Inr [1000, word_of_int (1000 - 3 * \<lfloor>s\<rfloor>)]
          else Inl (Error ''call revert exception'')
      | _ \<Rightarrow> Inl (Error ''invalid argument''))"

definition test_world :: world where
  "test_world =
     \<lparr>read_wrappedOutcome = (\<lambda>p a i. if 0 \<le> i \<and> i \<le> 3 then Inr (word_of_int (11 + i))
                                     else Inl (Error ''call revert exception'')),
      read_collateralToken1 = (\<lambda>p a. Inr 1),
      read_collateralToken2 = (\<lambda>p a. Inr 2),
      read_marketName = (\<lambda>p a. Inr ''Test market''),
      read_poolByPair = (\<lambda>p f a b. if a = 11 \<and> b = 13 then Inr 101
                                    else if a = 14 \<and> b = 12 then Inr 102 else Inr 0),
      read_getPool = (\<lambda>p f a b fee. if a = 11 \<and> b = 13 then
                                        (if fee = 500 then Inl (Error ''call revert exception'')
                                         else if fee = 3000 then Inr 0
                                         else if fee = 10000 then Inr 201 else Inr 202)
                                      else Inr 0),
      read_token0 = (\<lambda>p pool. if pool = 101 then Inr 11 else if pool = 102 then Inr 14
                               else Inl (Error ''call revert exception'')),
      read_getTimepoints = test_oracle,
      read_observe = test_oracle,
      read_symbol = (\<lambda>p a. if a = 1 then Inr ''GNO'' else if a = 2 then Inr ''sDAI''
                              else Inl (Error ''call revert exception'')),
      read_decimals = (\<lambda>p a. Inr 18),
      Date_now = Fin 1738886400123,
      Date_now_result = Fin 1738886400456,
      first_rejection = (\<lambda>es. 0)\<rparr>"

definition test_provider :: provider where
  "test_provider = JsonRpcProvider \<lparr>pid = 0, url = ''https://rpc.gnosischain.com''\<rparr>"

definition test_options :: options where
  "test_options =
     \<lparr>opt_endTimestamp = Some (Fin 1738000000), opt_days = Some (Fin 5), opt_rpcUrl = None\<rparr>"

definition test_proposal :: string where
  "test_proposal = ''0x45e1064348fd8a407d6d1f59fc64b05f633b28fc''"

definition test_tokens :: proposal_tokens where
  "test_tokens =
     \<lparr>yesCompany = 11, noCompany = 12, yesCurrency = 13, noCurrency = 14,
      companyToken = 1, currencyToken = 2, marketName = ''Test market''\<rparr>"

text \<open>The same chain without a YES pool.\<close>

definition world_without_yes_pool :: world where
  "world_without_yes_pool =
     test_world\<lparr>read_poolByPair :=
       (\<lambda>p f a b. if a = 14 \<and> b = 12 then Inr 102 else Inr 0)\<rparr>"

text \<open>
  The same chain with a YES oracle whose cumulative ticks grow by 8000000 per second
  over five days, and a NO oracle whose read is rejected.
\<close>

definition world_with_bad_oracles :: world where
  "world_with_bad_oracles =
     test_world\<lparr>read_getTimepoints :=
       (\<lambda>p pool secs. if pool = 101 then Inr [0, 3456000000000000]
                       else Inl (Error ''call revert exception''))\<rparr>"

text \<open>
  The same chain with oracles whose cumulative ticks fall by 7140000 per second over
  ten minutes.
\<close>

definition world_with_extreme_tick :: world where
  "world_with_extreme_tick =
     test_world\<lparr>read_getTimepoints := (\<lambda>p pool secs. Inr [1000, - 4283999000])\<rparr>"



section \<open>Properties\<close>

subsection \<open>Binary64 rounding\<close>

lemma lit_1e_8_double: "rnd (1 / 100000000) = Fin lit_1e_8"
  by code_simp

lemma lit_1_0001_double: "rnd (10001 / 10000) = Fin lit_1_0001"
  by code_simp

lemma lit_1e_8_pos: "0 < lit_1e_8"
  by (simp add: lit_1e_8_def)

lemma blen_rec: "0 < n \<Longrightarrow> blen n = 1 + blen (n div 2)"
  by (subst blen.simps) simp

lemma blen_nonpos: "n \<le> 0 \<Longrightarrow> blen n = 0"
  by (subst blen.simps) simp

lemma blen_1: "blen 1 = 1"
  by (simp add: blen_rec blen_nonpos)

lemma blen_bounds:
  "0 < n \<Longrightarrow> 0 < blen n \<and> 2 ^ nat (blen n - 1) \<le> n \<and> n < 2 ^ nat (blen n)"
proof (induction n rule: blen.induct)
  case (1 n)
  show ?case
  proof (cases "n div 2 \<le> 0")
    case True
    then have n1: "n = 1" using "1.prems" by linarith
    have "blen 1 = 1"
      by (simp add: blen_rec blen_nonpos)
    then show ?thesis using n1 by simp
  next
    case False
    then have pos: "0 < n div 2" by simp
    have ih: "0 < blen (n div 2)" "2 ^ nat (blen (n div 2) - 1) \<le> n div 2"
      "n div 2 < 2 ^ nat (blen (n div 2))"
      using "1.IH" "1.prems" pos by simp_all
    have b: "blen n = 1 + blen (n div 2)"
      using "1.prems" by (rule blen_rec)
    have e1: "nat (blen n - 1) = Suc (nat (blen (n div 2) - 1))"
      using ih(1) b by simp
    have e2: "nat (blen n) = Suc (nat (blen (n div 2)))"
      using ih(1) b by simp
    have lo: "(2::int) ^ nat (blen n - 1) \<le> n"
      unfolding e1 using ih(2) by (simp, linarith?)
    have hi: "n < 2 ^ nat (blen n)"
      unfolding e2 using ih(3) by (simp, linarith?)
    show ?thesis using lo hi b ih(1) by simp
  qed
qed

lemma blen_le:
  assumes "0 < n" "n < 2 ^ k"
  shows "blen n \<le> int k"
proof -
  have "(2::int) ^ nat (blen n - 1) < 2 ^ k"
    using blen_bounds [OF assms(1)] assms(2) by linarith
  then have "nat (blen n - 1) < k"
    by (simp add: power_strict_increasing_iff)
  then show ?thesis by linarith
qed

lemma pow2_powi: "pow2 e = 2 powi e"
  by (simp add: pow2_def power_int_def inverse_eq_divide power_one_over)

lemma pow2_pos: "0 < pow2 e"
  by (simp add: pow2_powi zero_less_power_int)

lemma pow2_mono: "a \<le> b \<Longrightarrow> pow2 a \<le> pow2 b"
  by (simp add: pow2_powi power_int_increasing)

lemma pow2_Suc: "pow2 (e + 1) = 2 * pow2 e"
  by (simp add: pow2_powi power_int_add)

lemma pow2_pred: "pow2 (e - 1) = pow2 e / 2"
  using pow2_Suc [of "e - 1"] by simp

lemma pow2_of_nat: "pow2 (int k) = 2 ^ k"
  by (simp add: pow2_def)

lemma pow2_neg: "pow2 (- e) = 1 / pow2 e"
  by (simp add: pow2_powi power_int_minus inverse_eq_divide)

lemma pow2_53: "pow2 (e - 53) = pow2 e / 9007199254740992"
  by (simp add: pow2_powi power_int_diff)

lemma pow2_add: "pow2 (a + b) = pow2 a * pow2 b"
  by (simp add: pow2_powi power_int_add)

text \<open>
  The exponent that \<open>ilog2\<close> computes brackets its argument.
\<close>

lemma ilog2_bracket:
  assumes "0 < q"
  shows "pow2 (ilog2 q) \<le> q \<and> q < pow2 (ilog2 q + 1)"
proof (cases "1 \<le> q")
  case True
  define a where "a = \<lfloor>q\<rfloor>"
  have a1: "0 < a" using True by (simp add: a_def)
  have il: "ilog2 q = blen a - 1"
    using True by (simp add: ilog2_def a_def)
  have b: "0 < blen a" "2 ^ nat (blen a - 1) \<le> a" "a < 2 ^ nat (blen a)"
    using blen_bounds [OF a1] by simp_all
  have "(of_int (2 ^ nat (blen a - 1)) :: rat) \<le> of_int a"
    using b(2) by (simp only: of_int_le_iff)
  also have "\<dots> \<le> q" by (simp add: a_def)
  finally have lo: "pow2 (blen a - 1) \<le> q"
    using b(1) by (simp add: pow2_def)
  have "a + 1 \<le> 2 ^ nat (blen a)" using b(3) by simp
  then have "(of_int (a + 1) :: rat) \<le> of_int (2 ^ nat (blen a))"
    by (simp only: of_int_le_iff)
  moreover have "q < of_int (a + 1)"
    using floor_correct [of q] by (simp add: a_def)
  ultimately have hi: "q < pow2 (blen a)"
    using b(1) by (simp add: pow2_def)
  show ?thesis using lo hi by (simp add: il)
next
  case False
  define c where "c = \<lceil>1 / q\<rceil>"
  have q1: "q < 1" using False by simp
  have inv1: "1 < 1 / q" using assms q1 by simp
  have c2: "1 < c" using inv1 by (simp add: c_def less_ceiling_iff)
  have cm: "0 < c - 1" using c2 by simp
  have il: "ilog2 q = - blen (c - 1)"
    using False by (simp add: ilog2_def c_def)
  have b: "0 < blen (c - 1)" "2 ^ nat (blen (c - 1) - 1) \<le> c - 1" "c - 1 < 2 ^ nat (blen (c - 1))"
    using blen_bounds [OF cm] by simp_all
  define k where "k = nat (blen (c - 1))"
  have k: "blen (c - 1) = int k" "0 < k" using b(1) by (simp_all add: k_def)
  have up: "1 / q \<le> of_int c" by (simp add: c_def)
  have "c \<le> 2 ^ k" using b(3) by (simp add: k_def)
  then have "(of_int c :: rat) \<le> of_int (2 ^ k)" by (simp only: of_int_le_iff)
  with up have "1 / q \<le> of_int (2 ^ k)" by linarith
  then have "1 / q \<le> 2 ^ k" by simp
  then have lo: "1 / 2 ^ k \<le> q"
    using assms by (simp add: field_simps)
  have "of_int (c - 1) < 1 / q"
    unfolding c_def using ceiling_correct [of "1 / q"] by simp
  moreover have "(of_int (2 ^ (k - 1)) :: rat) \<le> of_int (c - 1)"
    using b(2) unfolding k(1) by (simp only: of_int_le_iff) (simp add: nat_diff_distrib')
  ultimately have "2 ^ (k - 1) < 1 / q" by simp
  then have hi: "q < 1 / 2 ^ (k - 1)"
    using assms by (simp add: field_simps)
  have p1: "pow2 (- int k) = 1 / 2 ^ k"
    using k(2) by (simp add: pow2_def)
  have p2: "pow2 (1 - int k) = 1 / 2 ^ (k - 1)"
  proof (cases "k = 1")
    case True
    then show ?thesis by (simp add: pow2_def)
  next
    case False
    then have "1 - int k < 0" using k(2) by simp
    moreover have "nat (- (1 - int k)) = k - 1" by simp
    ultimately show ?thesis by (simp add: pow2_def del: nat_diff_distrib')
  qed
  show ?thesis
    using lo hi by (simp add: il k(1) p1 p2)
qed

lemma ilog2_of_int: "0 < a \<Longrightarrow> ilog2 (of_int a) = blen a - 1"
  by (simp add: ilog2_def)

lemma round_half_even_of_int: "round_half_even (of_int z) = z"
  by (simp add: round_half_even_def)

lemma round_half_even_floor: "t - of_int \<lfloor>t\<rfloor> < 1 / 2 \<Longrightarrow> round_half_even t = \<lfloor>t\<rfloor>"
  by (simp add: round_half_even_def Let_def)

lemma round_half_even_tie:
  "t - of_int \<lfloor>t\<rfloor> = 1 / 2 \<Longrightarrow> even \<lfloor>t\<rfloor> \<Longrightarrow> round_half_even t = \<lfloor>t\<rfloor>"
  by (simp add: round_half_even_def Let_def)

lemma round_half_even_choice:
  "round_half_even t = \<lfloor>t\<rfloor> \<or> round_half_even t = \<lfloor>t\<rfloor> + 1"
  by (simp add: round_half_even_def Let_def)

lemma round_half_even_error: "\<bar>of_int (round_half_even t) - t\<bar> \<le> 1 / 2"
proof -
  define r where "r = t - of_int \<lfloor>t\<rfloor>"
  have r: "0 \<le> r" "r < 1"
    unfolding r_def by linarith+
  have t: "t = of_int \<lfloor>t\<rfloor> + r"
    by (simp add: r_def)
  consider "r < 1 / 2" | "1 / 2 < r" | "r = 1 / 2"
    by linarith
  then show ?thesis
  proof cases
    case 1
    then have "round_half_even t = \<lfloor>t\<rfloor>"
      by (simp add: round_half_even_def Let_def r_def)
    moreover have "of_int \<lfloor>t\<rfloor> - t = - r"
      by (simp add: r_def)
    ultimately show ?thesis using r 1 by simp
  next
    case 2
    then have "round_half_even t = \<lfloor>t\<rfloor> + 1"
      by (simp add: round_half_even_def Let_def r_def)
    moreover have "of_int \<lfloor>t\<rfloor> - t = - r"
      by (simp add: r_def)
    ultimately show ?thesis using r 2 by simp
  next
    case 3
    then have "round_half_even t = \<lfloor>t\<rfloor> \<or> round_half_even t = \<lfloor>t\<rfloor> + 1"
      by (simp add: round_half_even_def Let_def r_def)
    moreover have "of_int \<lfloor>t\<rfloor> - t = - (1 / 2)"
      using 3 by (simp add: r_def)
    ultimately show ?thesis
      by (elim disjE) simp_all
  qed
qed

text \<open>
  An integer with at most 53 significant bits is a double: rounding leaves it alone.
\<close>

lemma rnd_of_int_exact:
  assumes n0: "n \<noteq> 0" and lt: "\<bar>n\<bar> < 2 ^ (53 + k)" and dv: "2 ^ k dvd n" and k: "k \<le> 900"
  shows "rnd (of_int n) = Fin (of_int n)"
proof -
  define e where "e = blen \<bar>n\<bar> - 1"
  have apos: "0 < \<bar>n\<bar>" using n0 by simp
  have il: "ilog2 \<bar>of_int n :: rat\<bar> = e"
    using ilog2_of_int [OF apos] by (simp add: e_def flip: of_int_abs)
  have e0: "0 \<le> e" using blen_bounds [OF apos] by (simp add: e_def)
  have ek: "e \<le> 52 + int k" using blen_le [OF apos lt] by (simp add: e_def)
  have lo: "2 ^ nat e \<le> \<bar>n\<bar>" using blen_bounds [OF apos] by (simp add: e_def)
  obtain z :: int where z: "(of_int n :: rat) / pow2 (e - 52) = of_int z"
  proof (cases "e \<le> 52")
    case True
    have "(of_int n :: rat) / pow2 (e - 52) = of_int (n * 2 ^ nat (52 - e))"
    proof (cases "e = 52")
      case True
      then show ?thesis by (simp add: pow2_def)
    next
      case False
      then have "e - 52 < 0" using True by simp
      then show ?thesis by (simp add: pow2_def)
    qed
    then show ?thesis using that by blast
  next
    case False
    then have d: "nat (e - 52) \<le> k" using ek by simp
    have "(2::int) ^ nat (e - 52) dvd 2 ^ k"
      using d by (simp add: le_imp_power_dvd)
    then have "(2::int) ^ nat (e - 52) dvd n"
      using dv dvd_trans by blast
    then obtain q where q: "n = 2 ^ nat (e - 52) * q" by (auto simp: dvd_def)
    have "(of_int n :: rat) / pow2 (e - 52) = of_int q"
      using False by (simp add: pow2_def q)
    then show ?thesis using that by blast
  qed
  have bk: "(of_int z :: rat) * pow2 (e - 52) = of_int n"
  proof -
    have "pow2 (e - 52) \<noteq> 0" by (simp add: pow2_def)
    then show ?thesis using z by (simp add: field_simps)
  qed
  have m: "max e (- 1022) = e" using e0 by simp
  have ne: "e \<noteq> 1023" "\<not> 1024 \<le> e" using ek k by simp_all
  show ?thesis
    using n0 by (simp add: rnd_def il Let_def m ne z round_half_even_of_int bk)
qed

text \<open>
  In the normal range rounding moves a value by at most half a unit in the last place.
\<close>

lemma rnd_error:
  assumes q: "0 < q" and lo: "- 1022 \<le> ilog2 q" and hi: "ilog2 q \<le> 1022"
  shows "\<exists>y. rnd q = Fin y \<and> \<bar>y - q\<bar> \<le> pow2 (ilog2 q - 53)"
proof -
  define e where "e = ilog2 q"
  define ulp where "ulp = pow2 (e - 52)"
  define m where "m = round_half_even (q / ulp)"
  have up: "0 < ulp" by (simp add: ulp_def pow2_pos)
  have r: "rnd q = Fin (of_int m * ulp)"
    using q lo hi by (simp add: rnd_def Let_def e_def ulp_def m_def)
  have "\<bar>of_int m * ulp - q\<bar> = ulp * \<bar>of_int m - q / ulp\<bar>"
    using up by (simp add: abs_mult [symmetric] field_simps)
  also have "\<dots> \<le> ulp * (1 / 2)"
    using up round_half_even_error [of "q / ulp"] unfolding m_def
    by (intro mult_left_mono) simp_all
  also have "\<dots> = pow2 (e - 53)"
    using pow2_pred [of "e - 52"] by (simp add: ulp_def)
  finally show ?thesis
    using r by (simp add: e_def)
qed

lemma rnd_near_one:
  assumes lo: "1 - 1 / 9007199254740992 \<le> z" and hi: "z \<le> 1 + 1 / 9007199254740992"
  shows "rnd z = Fin 1 \<or> rnd z = Fin (9007199254740991 / 9007199254740992)"
proof (cases "1 \<le> z")
  case True
  have fl: "\<lfloor>z\<rfloor> = 1"
    using True hi by (intro floor_unique) simp_all
  have az: "\<bar>z\<bar> = z"
    using True by simp
  have il: "ilog2 z = 0"
    using True by (simp add: ilog2_def fl blen_1)
  define t where "t = z * 4503599627370496"
  have ft: "\<lfloor>t\<rfloor> = 4503599627370496"
    using True hi unfolding t_def by (intro floor_unique) simp_all
  have r: "t - of_int \<lfloor>t\<rfloor> \<le> 1 / 2"
    using hi ft unfolding t_def by simp
  have m: "round_half_even t = 4503599627370496"
  proof (cases "t - of_int \<lfloor>t\<rfloor> < 1 / 2")
    case True
    then show ?thesis using round_half_even_floor [of t] ft by simp
  next
    case False
    then have "t - of_int \<lfloor>t\<rfloor> = 1 / 2" using r by simp
    then show ?thesis using round_half_even_tie [of t] ft by simp
  qed
  have z0: "z \<noteq> 0"
    using True by simp
  have "rnd z = Fin 1"
    using m z0 by (simp add: rnd_def az il Let_def pow2_def t_def)
  then show ?thesis ..
next
  case False
  then have z1: "z < 1" by simp
  have z0: "0 < z" using lo by simp
  have "1 < 1 / z" using z0 z1 by simp
  moreover have "1 / z \<le> 2"
    using lo z0 by (simp add: field_simps)
  ultimately have ce: "\<lceil>1 / z\<rceil> = 2"
    by (intro ceiling_unique) simp_all
  have az: "\<bar>z\<bar> = z"
    using z0 by simp
  have il: "ilog2 z = - 1"
    using z0 False by (simp add: ilog2_def ce blen_1)
  define t where "t = z * 9007199254740992"
  have ft: "\<lfloor>t\<rfloor> = 9007199254740991"
    using z1 lo unfolding t_def by (intro floor_unique) simp_all
  have zn: "z \<noteq> 0"
    using z0 by simp
  have "rnd z = Fin (of_int (round_half_even t) / 9007199254740992)"
    using zn by (simp add: rnd_def az il Let_def pow2_def t_def)
  then show ?thesis
    using round_half_even_choice [of t] unfolding ft by auto
qed

lemma rnd_overflow:
  assumes "pow2 1024 \<le> q"
  shows "rnd q = PosInf"
proof -
  have q0: "0 < q"
    using assms pow2_pos [of 1024] by linarith
  have "1024 \<le> ilog2 q"
  proof (rule ccontr)
    assume "\<not> 1024 \<le> ilog2 q"
    then have "pow2 (ilog2 q + 1) \<le> pow2 1024" by (intro pow2_mono) simp
    then show False using ilog2_bracket [OF q0] assms by linarith
  qed
  then show ?thesis
    using q0 by (simp add: rnd_def Let_def inf_of_def)
qed

text \<open>
  The reciprocal of a double, multiplied by the double: 1, or the double just below 1.
\<close>

lemma reciprocal_round_trip:
  assumes lo: "pow2 (- 1023) < x" and hi: "x \<le> pow2 1022"
  shows "js_mul (js_div (Fin 1) (Fin x)) (Fin x) = Fin 1 \<or>
         js_mul (js_div (Fin 1) (Fin x)) (Fin x) = Fin (9007199254740991 / 9007199254740992)"
proof -
  have x0: "0 < x"
    using lo pow2_pos [of "- 1023"] by linarith
  define q where "q = 1 / x"
  have q0: "0 < q" using x0 by (simp add: q_def)
  have qx: "q * x = 1" using x0 by (simp add: q_def)
  have qlo: "pow2 (- 1022) \<le> q"
    unfolding q_def pow2_neg using hi x0 pow2_pos [of 1022] by (simp add: frac_le)
  have qhi: "q < pow2 1023"
  proof -
    have "1 / x < 1 / pow2 (- 1023)"
      using lo pow2_pos [of "- 1023"] by (simp add: frac_less2)
    then show ?thesis
      using pow2_neg [of "- 1023"] by (simp add: q_def)
  qed
  have br: "pow2 (ilog2 q) \<le> q" "q < pow2 (ilog2 q + 1)"
    using ilog2_bracket [OF q0] by simp_all
  have e_hi: "ilog2 q \<le> 1022"
  proof (rule ccontr)
    assume "\<not> ilog2 q \<le> 1022"
    then have "pow2 1023 \<le> pow2 (ilog2 q)" by (intro pow2_mono) simp
    then show False using br(1) qhi by linarith
  qed
  have e_lo: "- 1022 \<le> ilog2 q"
  proof (rule ccontr)
    assume "\<not> - 1022 \<le> ilog2 q"
    then have "pow2 (ilog2 q + 1) \<le> pow2 (- 1022)" by (intro pow2_mono) simp
    then show False using br(2) qlo by linarith
  qed
  from rnd_error [OF q0 e_lo e_hi] obtain y where
    y: "rnd q = Fin y" and err: "\<bar>y - q\<bar> \<le> pow2 (ilog2 q - 53)"
    by blast
  have "\<bar>y - q\<bar> \<le> q / 9007199254740992"
    using err br(1) unfolding pow2_53 by (simp add: field_simps)
  then have "\<bar>y - q\<bar> * x \<le> q / 9007199254740992 * x"
    using x0 by (intro mult_right_mono) simp_all
  then have "\<bar>(y - q) * x\<bar> \<le> 1 / 9007199254740992"
    using x0 qx by (simp add: abs_mult)
  then have "\<bar>y * x - 1\<bar> \<le> 1 / 9007199254740992"
    using qx by (simp add: algebra_simps)
  then have "1 - 1 / 9007199254740992 \<le> y * x" "y * x \<le> 1 + 1 / 9007199254740992"
    by linarith+
  then have "rnd (y * x) = Fin 1 \<or> rnd (y * x) = Fin (9007199254740991 / 9007199254740992)"
    by (rule rnd_near_one)
  moreover have "js_div (Fin 1) (Fin x) = Fin y"
    using x0 y by (simp add: q_def)
  ultimately show ?thesis by simp
qed

text \<open>
  Evaluation of \<open>rnd\<close> at numerals.
\<close>

lemma floor_rat_numeral: "\<lfloor>(numeral a :: rat) / numeral b\<rfloor> = numeral a div numeral b"
  using floor_divide_of_int_eq [of "numeral a" "numeral b", where ?'a = rat] by simp

lemma floor_rat_neg_numeral:
  "\<lfloor>- ((numeral a :: rat) / numeral b)\<rfloor> = - numeral a div numeral b"
  using floor_divide_of_int_eq [of "- numeral a" "numeral b", where ?'a = rat] by simp

lemma ceiling_rat_numeral:
  "\<lceil>(numeral a :: rat) / numeral b\<rceil> = - (- numeral a div numeral b)"
  using floor_rat_neg_numeral [of a b] by (simp add: ceiling_def)

lemma ceiling_rat_neg_numeral:
  "\<lceil>- ((numeral a :: rat) / numeral b)\<rceil> = - (numeral a div numeral b)"
  using floor_rat_numeral [of a b] by (simp add: ceiling_def)

lemmas rnd_eval = rnd_def ilog2_def Let_def pow2_def round_half_even_def inf_of_def
  blen_rec blen_nonpos floor_rat_numeral floor_rat_neg_numeral ceiling_rat_numeral
  ceiling_rat_neg_numeral

subsection \<open>The average tick\<close>

lemma avg_tick_600:
  assumes "\<bar>600 * N\<bar> < 72057594037927936"
  shows "js_div (Number_of_BigInt (600 * N)) (Fin 600) = Fin (of_int N)"
proof (cases "N = 0")
  case True
  then show ?thesis by (simp add: Number_of_BigInt_def rnd_def)
next
  case False
  have a: "rnd (of_int (600 * N)) = Fin (of_int (600 * N))"
  proof (rule rnd_of_int_exact [where k = 3])
    show "600 * N \<noteq> 0" using False by simp
    show "\<bar>600 * N\<bar> < 2 ^ (53 + 3)" using assms by simp
    show "2 ^ 3 dvd 600 * N" by simp
  qed simp
  have b: "rnd (of_int N) = Fin (of_int N)"
  proof (rule rnd_of_int_exact [where k = 0])
    show "N \<noteq> 0" by fact
    show "\<bar>N\<bar> < 2 ^ (53 + 0)" using assms by simp
  qed simp_all
  have a': "rnd (600 * of_int N) = Fin (600 * of_int N)"
    using a by simp
  show ?thesis
    using False by (simp add: Number_of_BigInt_def a' b)
qed

lemma sint56_range:
  fixes x :: "56 word"
  shows "- 36028797018963968 \<le> sint x \<and> sint x < 36028797018963968"
  using sint_ge [of x] sint_lt [of x] by simp

text \<open>
  A window of 600 seconds whose two readings differ by \<open>600 * N\<close>: the average tick
  is \<open>N\<close>, and the rest of \<^verbatim>\<open>calculatePoolTwap\<close> follows from it.
\<close>

lemma calculatePoolTwap_600:
  assumes cfg: "CHAIN_CONFIG env chainId = Some config"
    and rd: "(if cfg_mode config = ''algebra''
              then read_getTimepoints w provider pool [Fin 600, Fin 0]
              else read_observe w provider pool [Fin 600, Fin 0]) = Inr [oldest, latest]"
    and d: "sint latest - sint oldest = 600 * N"
  shows "js_div (Number_of_BigInt (sint latest - sint oldest)) (Fin 600) = Fin (of_int N) \<and>
         calculatePoolTwap js env w provider chainId pool (Fin 600) shouldInv =
           (if \<not> Number_isFinite (Math_pow js (Fin lit_1_0001) (Fin (of_int N)))
               \<or> js_le (Math_pow js (Fin lit_1_0001) (Fin (of_int N))) (Fin 0)
            then Inl (Error ''Invalid price from oracle'')
            else Inr \<lparr>rawPrice = Math_pow js (Fin lit_1_0001) (Fin (of_int N)),
                      normalizedPrice =
                        (if shouldInv
                         then js_div (Fin 1) (Math_pow js (Fin lit_1_0001) (Fin (of_int N)))
                         else Math_pow js (Fin lit_1_0001) (Fin (of_int N))),
                      averageTick = Fin (of_int N),
                      secondsWindow = Fin 600,
                      inverted = shouldInv\<rparr>)"
proof -
  have "\<bar>sint latest - sint oldest\<bar> < 72057594037927936"
    using sint56_range [of latest] sint56_range [of oldest] by linarith
  then have avg: "js_div (Number_of_BigInt (sint latest - sint oldest)) (Fin 600) = Fin (of_int N)"
    unfolding d by (rule avg_tick_600)
  have win: "Math_max (Fin 1) (Fin 600) = Fin 600"
    by (simp add: Math_max_def)
  have "calculatePoolTwap js env w provider chainId pool (Fin 600) shouldInv =
          (let raw = Math_pow js (Fin lit_1_0001)
                       (js_div (Number_of_BigInt (sint latest - sint oldest)) (Fin 600))
           in if \<not> Number_isFinite raw \<or> js_le raw (Fin 0) then
                Inl (Error ''Invalid price from oracle'')
              else
                Inr \<lparr>rawPrice = raw,
                     normalizedPrice = (if shouldInv then js_div (Fin 1) raw else raw),
                     averageTick = js_div (Number_of_BigInt (sint latest - sint oldest)) (Fin 600),
                     secondsWindow = Fin 600,
                     inverted = shouldInv\<rparr>)"
  proof (cases "cfg_mode config = ''algebra''")
    case True
    then have "read_getTimepoints w provider pool [Fin 600, Fin 0] = Inr [oldest, latest]"
      using rd by simp
    then show ?thesis
      using True by (simp add: calculatePoolTwap_def cfg Let_def win)
  next
    case False
    then have "read_observe w provider pool [Fin 600, Fin 0] = Inr [oldest, latest]"
      using rd by simp
    then show ?thesis
      using False by (simp add: calculatePoolTwap_def cfg Let_def win)
  qed
  then show ?thesis
    unfolding avg Let_def using avg by simp
qed

lemma rnd_int_small:
  assumes "\<bar>n\<bar> \<le> 9007199254740992"
  shows "rnd (of_int n) = Fin (of_int n)"
proof -
  consider "n = 0" | "n \<noteq> 0" "\<bar>n\<bar> < 9007199254740992" | "\<bar>n\<bar> = 9007199254740992"
    using assms by linarith
  then show ?thesis
  proof cases
    case 1
    then show ?thesis by (simp add: rnd_def)
  next
    case 2
    show ?thesis
    proof (rule rnd_of_int_exact [where k = 0])
      show "n \<noteq> 0" by fact
      show "\<bar>n\<bar> < 2 ^ (53 + 0)" using 2 by simp
    qed simp_all
  next
    case 3
    then have n: "n = 9007199254740992 \<or> n = - 9007199254740992"
      by linarith
    show ?thesis
    proof (rule rnd_of_int_exact [where k = 1])
      show "n \<noteq> 0" using n by auto
      show "\<bar>n\<bar> < 2 ^ (53 + 1)" using 3 by simp
      show "2 ^ 1 dvd n" using n by auto
    qed simp
  qed
qed

text \<open>
  A difference of at most \<open>2^53\<close> in magnitude is converted exactly, so that the average
  tick is the double nearest to the quotient, and the quotient itself when the window
  divides the difference.
\<close>

lemma avg_tick_small:
  assumes W: "1 \<le> W" and d: "\<bar>d\<bar> \<le> 9007199254740992"
  shows "js_div (Number_of_BigInt d) (Fin (of_int W)) = rnd (of_int d / of_int W)"
  using W by (simp add: Number_of_BigInt_def rnd_int_small [OF d])

lemma avg_tick_divides:
  assumes W: "1 \<le> W" and d: "\<bar>W * N\<bar> \<le> 9007199254740992"
  shows "js_div (Number_of_BigInt (W * N)) (Fin (of_int W)) = Fin (of_int N)"
proof -
  have "\<bar>N\<bar> \<le> \<bar>W\<bar> * \<bar>N\<bar>"
    using W by (simp add: mult_le_cancel_right1)
  then have n: "\<bar>N\<bar> \<le> 9007199254740992"
    using d by (simp add: abs_mult)
  have "(of_int (W * N) :: rat) / of_int W = of_int N"
    using W by simp
  then show ?thesis
    using avg_tick_small [OF W d] rnd_int_small [OF n] by simp
qed


text \<open>
  \<^verbatim>\<open>calculatePoolTwap\<close> over a window of \<open>W\<close> seconds, once the oracle has answered with
  two readings.
\<close>

lemma calculatePoolTwap_window:
  assumes cfg: "CHAIN_CONFIG env chainId = Some config"
    and win: "Math_max (Fin 1) (js_floor secondsAgo) = Fin (of_int W)"
    and rd: "(if cfg_mode config = ''algebra''
              then read_getTimepoints w provider pool [Fin (of_int W), Fin 0]
              else read_observe w provider pool [Fin (of_int W), Fin 0]) = Inr [oldest, latest]"
    and T: "T = js_div (Number_of_BigInt (sint latest - sint oldest)) (Fin (of_int W))"
  shows "calculatePoolTwap js env w provider chainId pool secondsAgo shouldInv =
           (if \<not> Number_isFinite (Math_pow js (Fin lit_1_0001) T)
               \<or> js_le (Math_pow js (Fin lit_1_0001) T) (Fin 0)
            then Inl (Error ''Invalid price from oracle'')
            else Inr \<lparr>rawPrice = Math_pow js (Fin lit_1_0001) T,
                      normalizedPrice =
                        (if shouldInv then js_div (Fin 1) (Math_pow js (Fin lit_1_0001) T)
                         else Math_pow js (Fin lit_1_0001) T),
                      averageTick = T,
                      secondsWindow = Fin (of_int W),
                      inverted = shouldInv\<rparr>)"
proof (cases "cfg_mode config = ''algebra''")
  case True
  then have "read_getTimepoints w provider pool [Fin (of_int W), Fin 0] = Inr [oldest, latest]"
    using rd by simp
  then show ?thesis
    using True unfolding T by (simp add: calculatePoolTwap_def cfg Let_def win)
next
  case False
  then have "read_observe w provider pool [Fin (of_int W), Fin 0] = Inr [oldest, latest]"
    using rd by simp
  then show ?thesis
    using False unfolding T by (simp add: calculatePoolTwap_def cfg Let_def win)
qed


lemma test_config: "CHAIN_CONFIG test_env (Fin 100) = Some (the (CHAIN_CONFIG test_env (Fin 100)))"
  by code_simp

lemma test_read_102:
  "(if cfg_mode (the (CHAIN_CONFIG test_env (Fin 100))) = ''algebra''
    then read_getTimepoints test_world test_provider 102 [Fin 600, Fin 0]
    else read_observe test_world test_provider 102 [Fin 600, Fin 0]) = Inr [1000, - 800]"
  by code_simp

lemma test_pow_minus_3:
  "Math_pow test_js (Fin lit_1_0001) (Fin (of_int (- 3)))
     = Fin (9004497635306467 / 9007199254740992)"
  by (simp add: test_js_def rat_pow_def lit_1_0001_def power_divide rnd_eval)

lemma reciprocal_minus_3:
  "js_div (Fin 1) (Fin (9004497635306467 / 9007199254740992))
     = Fin (4504950842371199 / 4503599627370496)"
  by (simp add: rnd_eval)

lemma product_minus_3:
  "js_mul (Fin (4504950842371199 / 4503599627370496)) (Fin (9004497635306467 / 9007199254740992))
     = Fin (9007199254740991 / 9007199254740992)"
  by (simp add: rnd_eval)



subsection \<open>Two roundings\<close>











subsection \<open>Price and inversion\<close>

lemma calculatePoolTwap_Inr:
  assumes "calculatePoolTwap js env w p ch pool sa inv0 = Inr r"
  shows "\<exists>tick. \<forall>inv'. calculatePoolTwap js env w p ch pool sa inv' =
           Inr \<lparr>rawPrice = Math_pow js (Fin lit_1_0001) tick,
                normalizedPrice = (if inv' then js_div (Fin 1) (Math_pow js (Fin lit_1_0001) tick)
                                   else Math_pow js (Fin lit_1_0001) tick),
                averageTick = tick,
                secondsWindow = Math_max (Fin 1) (js_floor sa),
                inverted = inv'\<rparr>"
proof (cases "CHAIN_CONFIG env ch")
  case None
  then show ?thesis using assms by (simp add: calculatePoolTwap_def)
next
  case (Some config)
  define rd where "rd = (if cfg_mode config = ''algebra''
                 then read_getTimepoints w p pool [Math_max (Fin 1) (js_floor sa), Fin 0]
                 else read_observe w p pool [Math_max (Fin 1) (js_floor sa), Fin 0])"
  show ?thesis
  proof (cases rd)
    case (Inl e)
    then show ?thesis
      using assms Some unfolding rd_def by (simp add: calculatePoolTwap_def Let_def)
  next
    case (Inr tc)
    show ?thesis
    proof (cases "length tc < 2")
      case True
      then show ?thesis
        using assms Some Inr unfolding rd_def by (simp add: calculatePoolTwap_def Let_def)
    next
      case False
      define tick where "tick = js_div (Number_of_BigInt (sint (tc ! 1) - sint (tc ! 0)))
                                  (Math_max (Fin 1) (js_floor sa))"
      show ?thesis
      proof (cases "\<not> Number_isFinite (Math_pow js (Fin lit_1_0001) tick)
                      \<or> js_le (Math_pow js (Fin lit_1_0001) tick) (Fin 0)")
        case True
        then show ?thesis
          using assms Some Inr False unfolding rd_def tick_def
          by (simp add: calculatePoolTwap_def Let_def)
      next
        case valid: False
        have "\<forall>inv'. calculatePoolTwap js env w p ch pool sa inv' =
           Inr \<lparr>rawPrice = Math_pow js (Fin lit_1_0001) tick,
                normalizedPrice = (if inv' then js_div (Fin 1) (Math_pow js (Fin lit_1_0001) tick)
                                   else Math_pow js (Fin lit_1_0001) tick),
                averageTick = tick,
                secondsWindow = Math_max (Fin 1) (js_floor sa),
                inverted = inv'\<rparr>"
          using Some Inr False valid unfolding rd_def tick_def
          by (simp add: calculatePoolTwap_def Let_def)
        then show ?thesis ..
      qed
    qed
  qed
qed

text \<open>
  C8, in the form that holds of the code. When \<^verbatim>\<open>calculatePoolTwap\<close> succeeds,
  \<^verbatim>\<open>rawPrice\<close> is \<^verbatim>\<open>Math.pow(1.0001, averageTick)\<close>, and \<^verbatim>\<open>normalizedPrice\<close> is the double
  \<^verbatim>\<open>1 / rawPrice\<close> when \<^verbatim>\<open>shouldInvert\<close> is true and \<^verbatim>\<open>rawPrice\<close> otherwise. For the same
  tick, the product of the inverted and of the plain normalized price, as the double
  that the multiplication yields, is 1 up to one rounding: it is 1 or \<open>1 - 2^-53\<close>
  (9007199254740991 / 9007199254740992) whenever \<open>2^-1023 < rawPrice \<le> 2^1022\<close>, that
  is whenever the reciprocal is in the normal range.
\<close>

theorem normalized_price_round_trip:
  assumes t: "calculatePoolTwap js env w provider chainId pool secondsAgo True = Inr rt"
    and f: "calculatePoolTwap js env w provider chainId pool secondsAgo False = Inr rf"
  shows "rawPrice rt = Math_pow js (Fin lit_1_0001) (averageTick rt) \<and>
         rawPrice rf = rawPrice rt \<and> averageTick rf = averageTick rt \<and>
         normalizedPrice rt = js_div (Fin 1) (rawPrice rt) \<and>
         normalizedPrice rf = rawPrice rt \<and>
         (\<forall>x. rawPrice rt = Fin x \<and> pow2 (- 1023) < x \<and> x \<le> pow2 1022 \<longrightarrow>
              js_mul (normalizedPrice rt) (normalizedPrice rf) = Fin 1 \<or>
              js_mul (normalizedPrice rt) (normalizedPrice rf)
                = Fin (9007199254740991 / 9007199254740992))"
proof -
  from calculatePoolTwap_Inr [OF t] obtain tick where
    all: "\<And>inv'. calculatePoolTwap js env w provider chainId pool secondsAgo inv' =
           Inr \<lparr>rawPrice = Math_pow js (Fin lit_1_0001) tick,
                normalizedPrice = (if inv' then js_div (Fin 1) (Math_pow js (Fin lit_1_0001) tick)
                                   else Math_pow js (Fin lit_1_0001) tick),
                averageTick = tick,
                secondsWindow = Math_max (Fin 1) (js_floor secondsAgo),
                inverted = inv'\<rparr>"
    by blast
  have rt: "rt = \<lparr>rawPrice = Math_pow js (Fin lit_1_0001) tick,
                   normalizedPrice = js_div (Fin 1) (Math_pow js (Fin lit_1_0001) tick),
                   averageTick = tick,
                   secondsWindow = Math_max (Fin 1) (js_floor secondsAgo),
                   inverted = True\<rparr>"
    using t all [of True] by simp
  have rf: "rf = \<lparr>rawPrice = Math_pow js (Fin lit_1_0001) tick,
                   normalizedPrice = Math_pow js (Fin lit_1_0001) tick,
                   averageTick = tick,
                   secondsWindow = Math_max (Fin 1) (js_floor secondsAgo),
                   inverted = False\<rparr>"
    using f all [of False] by simp
  show ?thesis
    using reciprocal_round_trip by (simp add: rt rf)
qed

lemma test_twap_minus_3:
  "calculatePoolTwap test_js test_env test_world test_provider (Fin 100) 102 (Fin 600) shouldInv
     = Inr \<lparr>rawPrice = Fin (9004497635306467 / 9007199254740992),
             normalizedPrice = (if shouldInv then Fin (4504950842371199 / 4503599627370496)
                                else Fin (9004497635306467 / 9007199254740992)),
             averageTick = Fin (- 3), secondsWindow = Fin 600, inverted = shouldInv\<rparr>"
proof -
  have d: "sint (- 800 :: 56 word) - sint (1000 :: 56 word) = 600 * (- 3)"
    by simp
  have pos: "\<not> js_le (Fin (9004497635306467 / 9007199254740992)) (Fin 0)"
    by (simp add: js_le_def)
  show ?thesis
    using calculatePoolTwap_600 [OF test_config test_read_102 d, of test_js shouldInv]
    unfolding test_pow_minus_3 reciprocal_minus_3 using pos by simp
qed

text \<open>
  The NO pool of the fixture, at tick -3.
\<close>

theorem normalized_price_round_trip_witness:
  "calculatePoolTwap test_js test_env test_world test_provider (Fin 100) 102 (Fin 600) True
     = Inr \<lparr>rawPrice = Fin (9004497635306467 / 9007199254740992),
             normalizedPrice = Fin (4504950842371199 / 4503599627370496),
             averageTick = Fin (- 3), secondsWindow = Fin 600, inverted = True\<rparr> \<and>
   calculatePoolTwap test_js test_env test_world test_provider (Fin 100) 102 (Fin 600) False
     = Inr \<lparr>rawPrice = Fin (9004497635306467 / 9007199254740992),
             normalizedPrice = Fin (9004497635306467 / 9007199254740992),
             averageTick = Fin (- 3), secondsWindow = Fin 600, inverted = False\<rparr> \<and>
   pow2 (- 1023) < 9004497635306467 / 9007199254740992 \<and>
   9004497635306467 / 9007199254740992 \<le> pow2 1022 \<and>
   (js_mul (Fin (4504950842371199 / 4503599627370496))
           (Fin (9004497635306467 / 9007199254740992)) = Fin 1 \<or>
    js_mul (Fin (4504950842371199 / 4503599627370496))
           (Fin (9004497635306467 / 9007199254740992))
      = Fin (9007199254740991 / 9007199254740992))"
proof -
  have t: "calculatePoolTwap test_js test_env test_world test_provider (Fin 100) 102 (Fin 600) True
     = Inr \<lparr>rawPrice = Fin (9004497635306467 / 9007199254740992),
             normalizedPrice = Fin (4504950842371199 / 4503599627370496),
             averageTick = Fin (- 3), secondsWindow = Fin 600, inverted = True\<rparr>"
    using test_twap_minus_3 [of True] by simp
  have f: "calculatePoolTwap test_js test_env test_world test_provider (Fin 100) 102 (Fin 600) False
     = Inr \<lparr>rawPrice = Fin (9004497635306467 / 9007199254740992),
             normalizedPrice = Fin (9004497635306467 / 9007199254740992),
             averageTick = Fin (- 3), secondsWindow = Fin 600, inverted = False\<rparr>"
    using test_twap_minus_3 [of False] by simp
  have "pow2 (- 1023) \<le> pow2 (- 1)"
    by (rule pow2_mono) simp
  then have lo: "pow2 (- 1023) < 9004497635306467 / 9007199254740992"
    by (simp add: pow2_def [of "- 1"])
  have "pow2 0 \<le> pow2 1022"
    by (rule pow2_mono) simp
  then have hi: "9004497635306467 / 9007199254740992 \<le> pow2 1022"
    by (simp add: pow2_def [of 0])
  have "js_mul (Fin (4504950842371199 / 4503599627370496))
               (Fin (9004497635306467 / 9007199254740992)) = Fin 1 \<or>
        js_mul (Fin (4504950842371199 / 4503599627370496))
               (Fin (9004497635306467 / 9007199254740992))
          = Fin (9007199254740991 / 9007199254740992)"
    using normalized_price_round_trip [OF t f, THEN conjunct2, THEN conjunct2, THEN conjunct2,
        THEN conjunct2, THEN conjunct2, rule_format, of "9004497635306467 / 9007199254740992"]
      lo hi
    by simp
  then show ?thesis
    using t f lo hi by blast
qed

lemma test_pow_extreme:
  "Math_pow test_js (Fin lit_1_0001) (Fin (of_int (- 7140000)))
     = Fin (17197231743308 * pow2 (- 1074))"
  by (simp add: test_js_def)

lemma reciprocal_extreme: "js_div (Fin 1) (Fin (17197231743308 * pow2 (- 1074))) = PosInf"
proof -
  have p: "0 < pow2 (- 1074)"
    by (rule pow2_pos)
  have "pow2 1074 = pow2 1024 * pow2 50"
    using pow2_add [of 1024 50] by simp
  also have "pow2 50 = 1125899906842624"
    by (simp add: pow2_def)
  finally have "pow2 1024 * 17197231743308 \<le> pow2 1074"
    using pow2_pos [of 1024] by simp
  then have "pow2 1024 \<le> pow2 1074 / 17197231743308"
    by (simp add: field_simps)
  also have "pow2 1074 / 17197231743308 = 1 / (17197231743308 * (1 / pow2 1074))"
    using pow2_pos [of 1074] by simp
  also have "1 / pow2 1074 = pow2 (- 1074)"
    by (rule pow2_neg [symmetric])
  finally have "rnd (1 / (17197231743308 * pow2 (- 1074))) = PosInf"
    by (rule rnd_overflow)
  then show ?thesis
    using p by simp
qed

lemma test_read_extreme:
  "(if cfg_mode (the (CHAIN_CONFIG test_env (Fin 100))) = ''algebra''
    then read_getTimepoints world_with_extreme_tick test_provider 101 [Fin 600, Fin 0]
    else read_observe world_with_extreme_tick test_provider 101 [Fin 600, Fin 0])
     = Inr [1000, - 4283999000]"
  by code_simp

lemma test_twap_extreme:
  "calculatePoolTwap test_js test_env world_with_extreme_tick test_provider (Fin 100) 101 (Fin 600)
       shouldInv
     = Inr \<lparr>rawPrice = Fin (17197231743308 * pow2 (- 1074)),
             normalizedPrice = (if shouldInv then PosInf
                                else Fin (17197231743308 * pow2 (- 1074))),
             averageTick = Fin (- 7140000), secondsWindow = Fin 600, inverted = shouldInv\<rparr>"
proof -
  have d: "sint (- 4283999000 :: 56 word) - sint (1000 :: 56 word) = 600 * (- 7140000)"
    by simp
  have pos: "\<not> js_le (Fin (17197231743308 * pow2 (- 1074))) (Fin 0)"
    using pow2_pos [of "- 1074"] by (simp add: js_le_def)
  show ?thesis
    using calculatePoolTwap_600 [OF test_config test_read_extreme d, of test_js shouldInv]
    unfolding test_pow_extreme reciprocal_extreme using pos by simp
qed

text \<open>
  Two ticks at which the product is not 1. At tick -3 the raw price is
  9004497635306467 / 2^53 and the product of its reciprocal, as a double, with it is
  \<open>1 - 2^-53\<close>. At tick -7140000 the raw price is a positive subnormal number, accepted
  as a valid price; its reciprocal overflows, the inverted normalized price is
  \<^verbatim>\<open>Infinity\<close>, and so is the product.
\<close>

theorem normalized_price_round_trip_counterexample:
  "calculatePoolTwap test_js test_env test_world test_provider (Fin 100) 102 (Fin 600) True
     = Inr \<lparr>rawPrice = Fin (9004497635306467 / 9007199254740992),
             normalizedPrice = Fin (4504950842371199 / 4503599627370496),
             averageTick = Fin (- 3), secondsWindow = Fin 600, inverted = True\<rparr> \<and>
   calculatePoolTwap test_js test_env test_world test_provider (Fin 100) 102 (Fin 600) False
     = Inr \<lparr>rawPrice = Fin (9004497635306467 / 9007199254740992),
             normalizedPrice = Fin (9004497635306467 / 9007199254740992),
             averageTick = Fin (- 3), secondsWindow = Fin 600, inverted = False\<rparr> \<and>
   js_mul (Fin (4504950842371199 / 4503599627370496)) (Fin (9004497635306467 / 9007199254740992))
     = Fin (9007199254740991 / 9007199254740992) \<and>
   Fin (9007199254740991 / 9007199254740992) \<noteq> Fin 1 \<and>
   calculatePoolTwap test_js test_env world_with_extreme_tick test_provider (Fin 100) 101
       (Fin 600) True
     = Inr \<lparr>rawPrice = Fin (17197231743308 * pow2 (- 1074)),
             normalizedPrice = PosInf,
             averageTick = Fin (- 7140000), secondsWindow = Fin 600, inverted = True\<rparr> \<and>
   calculatePoolTwap test_js test_env world_with_extreme_tick test_provider (Fin 100) 101
       (Fin 600) False
     = Inr \<lparr>rawPrice = Fin (17197231743308 * pow2 (- 1074)),
             normalizedPrice = Fin (17197231743308 * pow2 (- 1074)),
             averageTick = Fin (- 7140000), secondsWindow = Fin 600, inverted = False\<rparr> \<and>
   js_mul PosInf (Fin (17197231743308 * pow2 (- 1074))) = PosInf \<and>
   PosInf \<noteq> Fin 1"
proof -
  have "js_mul PosInf (Fin (17197231743308 * pow2 (- 1074))) = PosInf"
    using pow2_pos [of "- 1074"] by (simp add: signed_inf_def)
  then show ?thesis
    using test_twap_minus_3 [of True] test_twap_minus_3 [of False] product_minus_3
      test_twap_extreme [of True] test_twap_extreme [of False]
    by simp
qed

subsection \<open>Pool lookup on the Uniswap factory\<close>






subsection \<open>Discovery of the six pools\<close>

lemma scan_pairs_Cons:
  assumes "scan_pairs env w p ch toks (pr # ps) = Inr es"
  shows "\<exists>e rest. scan_pairs env w p ch toks ps = Inr rest \<and> es = e # rest \<and>
           pe_name e = pair_name pr \<and> pe_exists e = (pe_address e \<noteq> None)"
proof (cases "findPool env w p ch (pair_t0 pr) (pair_t1 pr)")
  case (Inl e)
  then show ?thesis using assms by simp
next
  case addr: (Inr addr)
  show ?thesis
  proof (cases "if addr \<noteq> None \<and> sublist ''Conditional'' (pair_name pr)
                 then map_sum id Some
                        (detectInversion w p (the addr)
                           (if prefix ''YES'' (pair_name pr) then yesCompany toks else noCompany toks))
                 else Inr None")
    case (Inl e)
    then show ?thesis using assms addr by simp
  next
    case invn: (Inr invn)
    show ?thesis
    proof (cases "scan_pairs env w p ch toks ps")
      case (Inl e)
      then show ?thesis using assms addr invn by simp
    next
      case (Inr rest)
      then have "es = \<lparr>pe_name = pair_name pr, pe_address = addr, pe_exists = (addr \<noteq> None),
                       pe_inverted = map_option shouldInvert invn\<rparr> # rest"
        using assms addr invn by simp
      then show ?thesis using Inr by simp
    qed
  qed
qed

lemma scan_pairs_entries:
  "scan_pairs env w p ch toks ps = Inr es \<Longrightarrow>
   map pe_name es = map pair_name ps \<and>
   (\<forall>e \<in> set es. pe_exists e = (pe_address e \<noteq> None))"
proof (induction ps arbitrary: es)
  case Nil
  then show ?case by simp
next
  case (Cons pr ps)
  from scan_pairs_Cons [OF Cons.prems] obtain e rest where
    rest: "scan_pairs env w p ch toks ps = Inr rest"
    and es: "es = e # rest" "pe_name e = pair_name pr" "pe_exists e = (pe_address e \<noteq> None)"
    by blast
  show ?case
    using Cons.IH [OF rest] es by simp
qed

lemma filter_cong_set: "(\<forall>e \<in> set es. P e = Q e) \<Longrightarrow> filter P es = filter Q es"
  by (induction es) auto

lemma discoverPools_Inr:
  assumes "fst (discoverPools js env w c a ch opts) = Inr r"
  shows "\<exists>provider toks es. scan_pairs env w provider ch toks (pairs_of toks) = Inr es \<and>
           d_pools r = es \<and> found r = length (filter pe_exists es) \<and> total r = length es"
proof (cases "CHAIN_CONFIG env ch")
  case None
  then show ?thesis using assms by (simp add: discoverPools_def)
next
  case (Some config)
  show ?thesis
  proof (cases "fst (getProvider js env c ch (opt_rpcUrl opts))")
    case (Inl e)
    then show ?thesis using assms Some by (simp add: discoverPools_def Let_def)
  next
    case (Inr provider)
    show ?thesis
    proof (cases "getProposalTokens w provider a")
      case (Inl e)
      then show ?thesis using assms Some Inr by (simp add: discoverPools_def Let_def)
    next
      case toks: (Inr toks)
      show ?thesis
      proof (cases "scan_pairs env w provider ch toks (pairs_of toks)")
        case (Inl e)
        then show ?thesis using assms Some Inr toks by (simp add: discoverPools_def Let_def)
      next
        case es: (Inr es)
        have "r = \<lparr>d_proposalAddress = a, d_chainId = ch, d_chain = cfg_name config,
                   d_marketName = marketName toks,
                   d_tokens = \<lparr>rt_company = getTokenInfo w provider (companyToken toks),
                                rt_currency = getTokenInfo w provider (currencyToken toks),
                                rt_yesCompany = yesCompany toks, rt_noCompany = noCompany toks,
                                rt_yesCurrency = yesCurrency toks,
                                rt_noCurrency = noCurrency toks\<rparr>,
                   d_pools = es, found = length (filter pe_exists es), total = length es\<rparr>"
          using assms Some Inr toks es by (simp add: discoverPools_def Let_def)
        then show ?thesis using es by auto
      qed
    qed
  qed
qed

text \<open>
  C7. A successful \<^verbatim>\<open>discoverPools\<close> returns six entries, named in the order in which
  the pairs are declared (the two conditional pairs, then the four prediction pairs);
  \<^verbatim>\<open>total\<close> is 6, and \<^verbatim>\<open>found\<close> is the number of entries whose address is not null,
  which is the number of entries whose \<^verbatim>\<open>exists\<close> flag is true.
\<close>

theorem discoverPools_six_entries:
  assumes "fst (discoverPools js env w c a ch opts) = Inr r"
  shows "length (d_pools r) = 6 \<and>
         map pe_name (d_pools r) =
           [''YES_COMPANY/YES_CURRENCY (Conditional)'',
            ''NO_COMPANY/NO_CURRENCY (Conditional)'',
            ''YES_COMPANY/BASE_CURRENCY (Prediction)'',
            ''NO_COMPANY/BASE_CURRENCY (Prediction)'',
            ''YES_CURRENCY/BASE_CURRENCY (Prediction)'',
            ''NO_CURRENCY/BASE_CURRENCY (Prediction)''] \<and>
         total r = 6 \<and>
         found r = length (filter (\<lambda>e. pe_address e \<noteq> None) (d_pools r)) \<and>
         found r = length (filter pe_exists (d_pools r))"
proof -
  from discoverPools_Inr [OF assms] obtain provider toks es where
    sc: "scan_pairs env w provider ch toks (pairs_of toks) = Inr es"
    and r: "d_pools r = es" "found r = length (filter pe_exists es)" "total r = length es"
    by blast
  have n: "map pe_name es = map pair_name (pairs_of toks)"
    and ex: "\<forall>e \<in> set es. pe_exists e = (pe_address e \<noteq> None)"
    using scan_pairs_entries [OF sc] by simp_all
  have len: "length es = 6"
    using arg_cong [OF n, of length] by (simp add: pairs_of_def)
  have names: "map pe_name es =
           [''YES_COMPANY/YES_CURRENCY (Conditional)'',
            ''NO_COMPANY/NO_CURRENCY (Conditional)'',
            ''YES_COMPANY/BASE_CURRENCY (Prediction)'',
            ''NO_COMPANY/BASE_CURRENCY (Prediction)'',
            ''YES_CURRENCY/BASE_CURRENCY (Prediction)'',
            ''NO_CURRENCY/BASE_CURRENCY (Prediction)'']"
    unfolding n by (simp add: pairs_of_def)
  show ?thesis
    using names len filter_cong_set [OF ex] by (simp add: r)
qed

text \<open>
  The fixture on chain 100: both conditional pools exist, no prediction pool does.
\<close>

theorem discoverPools_six_entries_witness:
  "fst (discoverPools test_js test_env test_world empty_cache test_proposal (Fin 100) test_options)
     = Inr (projr (fst (discoverPools test_js test_env test_world empty_cache test_proposal
                          (Fin 100) test_options))) \<and>
   length (d_pools (projr (fst (discoverPools test_js test_env test_world empty_cache
                                  test_proposal (Fin 100) test_options)))) = 6 \<and>
   total (projr (fst (discoverPools test_js test_env test_world empty_cache
                        test_proposal (Fin 100) test_options))) = 6 \<and>
   found (projr (fst (discoverPools test_js test_env test_world empty_cache
                        test_proposal (Fin 100) test_options))) = 2"
proof -
  have ok: "\<not> isl (fst (discoverPools test_js test_env test_world empty_cache test_proposal
                         (Fin 100) test_options))"
    by code_simp
  have h: "fst (discoverPools test_js test_env test_world empty_cache test_proposal (Fin 100)
                  test_options)
     = Inr (projr (fst (discoverPools test_js test_env test_world empty_cache test_proposal
                          (Fin 100) test_options)))"
    using ok by simp
  have f: "found (projr (fst (discoverPools test_js test_env test_world empty_cache
                        test_proposal (Fin 100) test_options))) = 2"
    by code_simp
  show ?thesis
    using h f discoverPools_six_entries [OF h] by simp
qed

subsection \<open>The provider cache\<close>

lemma cache_ok_empty: "cache_ok empty_cache"
  by (simp add: cache_ok_def empty_cache_def)

lemma lookup_None: "lookup c k = None \<Longrightarrow> providers c k = None \<and> k \<notin> set Object_prototype"
  by (simp add: lookup_def split: option.splits if_splits)

lemma lookup_JsonRpcProvider:
  "lookup c k = Some (JsonRpcProvider conn) \<longleftrightarrow> providers c k = Some conn"
  by (simp add: lookup_def split: option.splits)

lemma lookup_Inherited:
  "lookup c k = Some (Inherited n) \<longleftrightarrow> providers c k = None \<and> k \<in> set Object_prototype \<and> n = k"
  by (auto simp: lookup_def split: option.splits)

lemma getProvider_hit:
  "lookup c (cache_key js ch r) = Some p \<Longrightarrow> getProvider js env c ch r = (Inr p, c)"
  by (simp add: getProvider_def)

lemma getProvider_miss:
  "lookup c (cache_key js ch r) = None \<Longrightarrow> CHAIN_CONFIG env ch = Some config \<Longrightarrow>
   getProvider js env c ch r =
     (Inr (JsonRpcProvider \<lparr>pid = next_pid c, url = str_or r (cfg_rpcUrl config)\<rparr>),
      c\<lparr>providers := (providers c)(cache_key js ch r \<mapsto>
                         \<lparr>pid = next_pid c, url = str_or r (cfg_rpcUrl config)\<rparr>),
        next_pid := Suc (next_pid c)\<rparr>)"
  by (simp add: getProvider_def Let_def)

lemma getProvider_unsupported:
  "lookup c (cache_key js ch r) = None \<Longrightarrow> CHAIN_CONFIG env ch = None \<Longrightarrow>
   getProvider js env c ch r = (Inl (Error (''Unsupported chain '' @ Number_toString js ch)), c)"
  by (simp add: getProvider_def)

lemma getProvider_cases:
  obtains (hit) p where "lookup c (cache_key js ch r) = Some p"
      "getProvider js env c ch r = (Inr p, c)"
  | (miss) config where "lookup c (cache_key js ch r) = None"
      "CHAIN_CONFIG env ch = Some config"
      "getProvider js env c ch r =
        (Inr (JsonRpcProvider \<lparr>pid = next_pid c, url = str_or r (cfg_rpcUrl config)\<rparr>),
         c\<lparr>providers := (providers c)(cache_key js ch r \<mapsto>
                            \<lparr>pid = next_pid c, url = str_or r (cfg_rpcUrl config)\<rparr>),
           next_pid := Suc (next_pid c)\<rparr>)"
  | (unsupported) "lookup c (cache_key js ch r) = None" "CHAIN_CONFIG env ch = None"
      "getProvider js env c ch r
         = (Inl (Error (''Unsupported chain '' @ Number_toString js ch)), c)"
  using getProvider_hit getProvider_miss getProvider_unsupported
  by (cases "lookup c (cache_key js ch r)"; cases "CHAIN_CONFIG env ch") blast+

text \<open>
  No entry is ever removed or replaced.
\<close>

lemma getProvider_keeps:
  assumes "providers c k = Some p"
  shows "providers (snd (getProvider js env c ch r)) k = Some p"
  by (rule getProvider_cases [of c js ch r env]) (use assms lookup_None in auto)

lemma getProvider_keeps_lookup:
  assumes "lookup c k = Some p"
  shows "lookup (snd (getProvider js env c ch r)) k = Some p"
proof (rule getProvider_cases [of c js ch r env])
  fix config
  assume n: "lookup c (cache_key js ch r) = None"
    and g: "getProvider js env c ch r =
        (Inr (JsonRpcProvider \<lparr>pid = next_pid c, url = str_or r (cfg_rpcUrl config)\<rparr>),
         c\<lparr>providers := (providers c)(cache_key js ch r \<mapsto>
                            \<lparr>pid = next_pid c, url = str_or r (cfg_rpcUrl config)\<rparr>),
           next_pid := Suc (next_pid c)\<rparr>)"
  have "k \<noteq> cache_key js ch r"
    using n assms by auto
  then show ?thesis
    using assms unfolding g by (simp add: lookup_def)
qed (use assms in auto)

lemma getProvider_ok:
  assumes "cache_ok c"
  shows "cache_ok (snd (getProvider js env c ch r))"
proof (rule getProvider_cases [of c js ch r env])
  fix config
  assume n: "lookup c (cache_key js ch r) = None"
    and g: "getProvider js env c ch r =
        (Inr (JsonRpcProvider \<lparr>pid = next_pid c, url = str_or r (cfg_rpcUrl config)\<rparr>),
         c\<lparr>providers := (providers c)(cache_key js ch r \<mapsto>
                            \<lparr>pid = next_pid c, url = str_or r (cfg_rpcUrl config)\<rparr>),
           next_pid := Suc (next_pid c)\<rparr>)"
  from assms have lt: "\<And>k p. providers c k = Some p \<Longrightarrow> pid p < next_pid c"
    and inj: "\<And>k k' p p'. providers c k = Some p \<Longrightarrow> providers c k' = Some p'
                \<Longrightarrow> pid p = pid p' \<Longrightarrow> k = k'"
    and inh: "\<And>k. k \<in> set Object_prototype \<Longrightarrow> providers c k = None"
    unfolding cache_ok_def by blast+
  have fresh: "cache_key js ch r \<notin> set Object_prototype"
    using lookup_None [OF n] by simp
  define m where "m = (providers c)(cache_key js ch r \<mapsto>
                \<lparr>pid = next_pid c, url = str_or r (cfg_rpcUrl config)\<rparr>)"
  have a: "\<forall>k p. m k = Some p \<longrightarrow> pid p < Suc (next_pid c)"
    using lt by (auto simp: m_def less_Suc_eq split: if_splits)
  have b: "\<forall>k k' p p'. m k = Some p \<and> m k' = Some p' \<and> pid p = pid p' \<longrightarrow> k = k'"
  proof (intro allI impI)
    fix k k' p p'
    assume h: "m k = Some p \<and> m k' = Some p' \<and> pid p = pid p'"
    show "k = k'"
    proof (cases "k = cache_key js ch r"; cases "k' = cache_key js ch r")
      assume "k = cache_key js ch r" "k' \<noteq> cache_key js ch r"
      then show ?thesis using h lt [of k' p'] by (auto simp: m_def)
    next
      assume "k \<noteq> cache_key js ch r" "k' = cache_key js ch r"
      then show ?thesis using h lt [of k p] by (auto simp: m_def)
    next
      assume "k \<noteq> cache_key js ch r" "k' \<noteq> cache_key js ch r"
      then show ?thesis using h inj [of k p k' p'] by (auto simp: m_def)
    qed simp
  qed
  have c: "\<forall>k. k \<in> set Object_prototype \<longrightarrow> m k = None"
    using inh fresh by (auto simp: m_def)
  have g': "snd (getProvider js env c ch r) = c\<lparr>providers := m, next_pid := Suc (next_pid c)\<rparr>"
    unfolding g m_def by simp
  show ?thesis
    unfolding g' cache_ok_def using a b c by simp
qed (use assms in auto)

text \<open>
  The public operations reach the cache through \<^verbatim>\<open>getProvider\<close> only, so every cache
  that they produce from the empty one satisfies the invariant.
\<close>

lemma calculateTwap_ok:
  assumes "cache_ok c"
  shows "cache_ok (snd (calculateTwap js env w c a ch opts))"
proof -
  have "snd (calculateTwap js env w c a ch opts) = c \<or>
        snd (calculateTwap js env w c a ch opts) = snd (getProvider js env c ch (opt_rpcUrl opts))"
    by (simp add: calculateTwap_def Let_def split: option.splits sum.splits)
  then show ?thesis
    using assms getProvider_ok [OF assms, of js env ch "opt_rpcUrl opts"] by auto
qed

lemma discoverPools_ok:
  assumes "cache_ok c"
  shows "cache_ok (snd (discoverPools js env w c a ch opts))"
proof -
  have "snd (discoverPools js env w c a ch opts) = c \<or>
        snd (discoverPools js env w c a ch opts) = snd (getProvider js env c ch (opt_rpcUrl opts))"
    by (simp add: discoverPools_def Let_def split: option.splits sum.splits)
  then show ?thesis
    using assms getProvider_ok [OF assms, of js env ch "opt_rpcUrl opts"] by auto
qed

lemma getProvider_stores:
  assumes "getProvider js env c ch r = (Inr p, c')"
  shows "lookup c' (cache_key js ch r) = Some p"
  by (rule getProvider_cases [of c js ch r env]) (use assms in \<open>auto simp: lookup_def\<close>)

text \<open>
  A key that the cache inherits is answered by the inherited property: nothing is
  constructed and the cache stays as it is, whatever the chain id.
\<close>

lemma getProvider_inherited:
  assumes "cache_ok c" and "cache_key js ch r \<in> set Object_prototype"
  shows "getProvider js env c ch r = (Inr (Inherited (cache_key js ch r)), c)"
proof -
  have "providers c (cache_key js ch r) = None"
    using assms unfolding cache_ok_def by blast
  then have "lookup c (cache_key js ch r) = Some (Inherited (cache_key js ch r))"
    using assms(2) by (simp add: lookup_def)
  then show ?thesis
    by (rule getProvider_hit)
qed

lemma lookup_inj:
  assumes "cache_ok c" and "lookup c k = Some p" and "lookup c k' = Some p"
  shows "k = k'"
proof (cases p)
  case (JsonRpcProvider conn)
  then have "providers c k = Some conn" "providers c k' = Some conn"
    using assms(2,3) by (simp_all add: lookup_JsonRpcProvider)
  then show ?thesis
    using assms(1) unfolding cache_ok_def by blast
next
  case (Inherited n)
  then show ?thesis
    using assms(2,3) by (simp add: lookup_Inherited)
qed

text \<open>
  C9, in the form that holds of the code. The cache is the object \<^verbatim>\<open>providers\<close>, read
  under the key \<^verbatim>\<open>rpcUrl || chainId\<close>: the RPC-URL override when one is given, whatever
  the chain id, and the chain id otherwise. Take a state of the cache that satisfies
  the invariant, as does every state reached from the empty cache. Of two successive
  successful calls of
  \<^verbatim>\<open>getProvider\<close>, the second returns the value of the first exactly when the two keys
  are equal; both values stay readable under their keys, and every entry that was
  cached before stays cached. Under a key that is not a property name of
  \<^verbatim>\<open>Object.prototype\<close> the value is a connection, which is cached; under a key that is
  one (\<^verbatim>\<open>constructor\<close>, \<^verbatim>\<open>toString\<close>, \<^verbatim>\<open>__proto__\<close> and so on) the value is the inherited
  property, and the call constructs no connection and leaves the cache as it was.
\<close>

theorem provider_reuse_by_key:
  assumes ok: "cache_ok c"
    and g1: "getProvider js env c ch1 r1 = (Inr p1, c1)"
    and g2: "getProvider js env c1 ch2 r2 = (Inr p2, c2)"
  shows "(p2 = p1 \<longleftrightarrow> cache_key js ch2 r2 = cache_key js ch1 r1) \<and>
         cache_key js ch1 r1 = str_or r1 (Number_toString js ch1) \<and>
         lookup c2 (cache_key js ch1 r1) = Some p1 \<and>
         lookup c2 (cache_key js ch2 r2) = Some p2 \<and>
         (\<forall>k p. providers c k = Some p \<longrightarrow> providers c2 k = Some p) \<and>
         (cache_key js ch1 r1 \<notin> set Object_prototype \<longrightarrow>
            (\<exists>conn. p1 = JsonRpcProvider conn \<and>
                    providers c2 (cache_key js ch1 r1) = Some conn)) \<and>
         (cache_key js ch2 r2 \<notin> set Object_prototype \<longrightarrow>
            (\<exists>conn. p2 = JsonRpcProvider conn \<and>
                    providers c2 (cache_key js ch2 r2) = Some conn)) \<and>
         (cache_key js ch1 r1 \<in> set Object_prototype \<longrightarrow>
            p1 = Inherited (cache_key js ch1 r1) \<and> c1 = c) \<and>
         (cache_key js ch2 r2 \<in> set Object_prototype \<longrightarrow>
            p2 = Inherited (cache_key js ch2 r2) \<and> c2 = c1)"
proof -
  have ok1: "cache_ok c1"
    using getProvider_ok [OF ok, of js env ch1 r1] g1 by simp
  have ok2: "cache_ok c2"
    using getProvider_ok [OF ok1, of js env ch2 r2] g2 by simp
  have s1: "lookup c1 (cache_key js ch1 r1) = Some p1"
    using getProvider_stores [OF g1] .
  have s2: "lookup c2 (cache_key js ch2 r2) = Some p2"
    using getProvider_stores [OF g2] .
  have s12: "lookup c2 (cache_key js ch1 r1) = Some p1"
    using getProvider_keeps_lookup [OF s1, of js env ch2 r2] g2 by simp
  have k12: "\<And>k p. providers c1 k = Some p \<Longrightarrow> providers c2 k = Some p"
    using getProvider_keeps [of c1 _ _ js env ch2 r2] g2 by simp
  have k01: "\<And>k p. providers c k = Some p \<Longrightarrow> providers c1 k = Some p"
    using getProvider_keeps [of c _ _ js env ch1 r1] g1 by simp
  have iff: "p2 = p1 \<longleftrightarrow> cache_key js ch2 r2 = cache_key js ch1 r1"
  proof
    assume "p2 = p1"
    then show "cache_key js ch2 r2 = cache_key js ch1 r1"
      using lookup_inj [OF ok2, of "cache_key js ch2 r2" p2 "cache_key js ch1 r1"] s2 s12
      by simp
  next
    assume "cache_key js ch2 r2 = cache_key js ch1 r1"
    then show "p2 = p1"
      using s2 s12 by simp
  qed
  have own: "\<And>k p. lookup c2 k = Some p \<Longrightarrow> k \<notin> set Object_prototype \<Longrightarrow>
               \<exists>conn. p = JsonRpcProvider conn \<and> providers c2 k = Some conn"
    by (auto simp: lookup_def split: option.splits if_splits)
  have i1: "cache_key js ch1 r1 \<in> set Object_prototype \<Longrightarrow>
              p1 = Inherited (cache_key js ch1 r1) \<and> c1 = c"
    using getProvider_inherited [OF ok, of js ch1 r1 env] g1 by simp
  have i2: "cache_key js ch2 r2 \<in> set Object_prototype \<Longrightarrow>
              p2 = Inherited (cache_key js ch2 r2) \<and> c2 = c1"
    using getProvider_inherited [OF ok1, of js ch2 r2 env] g2 by simp
  have keep: "\<forall>k p. providers c k = Some p \<longrightarrow> providers c2 k = Some p"
    using k01 k12 by blast
  have key: "cache_key js ch1 r1 = str_or r1 (Number_toString js ch1)"
    by (simp add: cache_key_def)
  show ?thesis
    using iff key s12 s2 keep own [OF s12] own [OF s2] i1 i2 by blast
qed

text \<open>
  From the empty cache: chain 100 without an override, then chain 100 with the
  override \<^verbatim>\<open>constructor\<close>. The keys differ; the first call constructs and caches a
  connection, the second returns the inherited property and leaves the cache as the
  first call left it.
\<close>

theorem provider_reuse_by_key_witness:
  "cache_ok empty_cache \<and>
   getProvider test_js test_env empty_cache (Fin 100) None
     = (Inr (JsonRpcProvider \<lparr>pid = 0, url = ''https://rpc.gnosischain.com''\<rparr>),
        snd (getProvider test_js test_env empty_cache (Fin 100) None)) \<and>
   getProvider test_js test_env (snd (getProvider test_js test_env empty_cache (Fin 100) None))
       (Fin 100) (Some ''constructor'')
     = (Inr (Inherited ''constructor''),
        snd (getProvider test_js test_env empty_cache (Fin 100) None)) \<and>
   cache_key test_js (Fin 100) None = ''100'' \<and>
   cache_key test_js (Fin 100) (Some ''constructor'') = ''constructor'' \<and>
   Inherited ''constructor''
     \<noteq> JsonRpcProvider \<lparr>pid = 0, url = ''https://rpc.gnosischain.com''\<rparr> \<and>
   lookup (snd (getProvider test_js test_env empty_cache (Fin 100) None)) ''100''
     = Some (JsonRpcProvider \<lparr>pid = 0, url = ''https://rpc.gnosischain.com''\<rparr>) \<and>
   lookup (snd (getProvider test_js test_env empty_cache (Fin 100) None)) ''constructor''
     = Some (Inherited ''constructor'')"
proof -
  have ok: "cache_ok empty_cache"
    by (simp add: cache_ok_def empty_cache_def)
  have g1: "getProvider test_js test_env empty_cache (Fin 100) None
     = (Inr (JsonRpcProvider \<lparr>pid = 0, url = ''https://rpc.gnosischain.com''\<rparr>),
        snd (getProvider test_js test_env empty_cache (Fin 100) None))"
    by (rule prod_eqI) (code_simp, simp)
  have g2: "getProvider test_js test_env
       (snd (getProvider test_js test_env empty_cache (Fin 100) None))
       (Fin 100) (Some ''constructor'')
     = (Inr (Inherited ''constructor''),
        snd (getProvider test_js test_env empty_cache (Fin 100) None))"
    by (simp add: getProvider_def cache_key_def str_or_def lookup_def empty_cache_def
          Object_prototype_def test_js_def test_env_def CHAIN_CONFIG_def Let_def)
  have k1: "cache_key test_js (Fin 100) None = ''100''"
    by code_simp
  have k2: "cache_key test_js (Fin 100) (Some ''constructor'') = ''constructor''"
    by code_simp
  from provider_reuse_by_key [OF ok g1 g2]
  have l1: "lookup (snd (getProvider test_js test_env empty_cache (Fin 100) None))
              (cache_key test_js (Fin 100) None)
            = Some (JsonRpcProvider \<lparr>pid = 0, url = ''https://rpc.gnosischain.com''\<rparr>)"
    and l2: "lookup (snd (getProvider test_js test_env empty_cache (Fin 100) None))
              (cache_key test_js (Fin 100) (Some ''constructor''))
            = Some (Inherited ''constructor'')"
    by blast+
  show ?thesis
    using ok g1 g2 k1 k2 l1 [unfolded k1] l2 [unfolded k2] by simp
qed

text \<open>
  From the empty cache: \<^verbatim>\<open>getProvider(100, u)\<close> constructs a connection, and
  \<^verbatim>\<open>getProvider(1, u)\<close> with the same override \<open>u\<close> returns that very connection,
  although the chain ids differ.
\<close>

theorem provider_shared_across_chains_counterexample:
  "fst (getProvider test_js test_env empty_cache (Fin 100) (Some ''https://rpc.example''))
     = Inr (JsonRpcProvider \<lparr>pid = 0, url = ''https://rpc.example''\<rparr>) \<and>
   fst (getProvider test_js test_env
          (snd (getProvider test_js test_env empty_cache (Fin 100) (Some ''https://rpc.example'')))
          (Fin 1) (Some ''https://rpc.example''))
     = Inr (JsonRpcProvider \<lparr>pid = 0, url = ''https://rpc.example''\<rparr>) \<and>
   Fin 100 \<noteq> Fin 1"
  by code_simp

text \<open>
  From the empty cache, with the override \<^verbatim>\<open>constructor\<close>: the call returns the
  inherited property for the supported chain 100 and for the unsupported chain 5
  alike, and the cache stays empty.
\<close>

lemma getProvider_constructor:
  "getProvider test_js test_env empty_cache (Fin 100) (Some ''constructor'')
     = (Inr (Inherited ''constructor''), empty_cache) \<and>
   getProvider test_js test_env empty_cache (Fin 5) (Some ''constructor'')
     = (Inr (Inherited ''constructor''), empty_cache)"
  by (simp add: getProvider_def cache_key_def str_or_def lookup_def empty_cache_def
        Object_prototype_def)

subsection \<open>calculateTwap: a missing pool, a failing TWAP step\<close>

lemma calculateTwap_fst:
  assumes "CHAIN_CONFIG env chainId = Some config"
    and "fst (getProvider js env c chainId (opt_rpcUrl opts)) = Inr provider"
  shows "fst (calculateTwap js env w c a chainId opts) =
           calculateTwap_with js env w provider a chainId config
             (num_or (opt_days opts) (Fin 5))
             (js_floor (js_div (Date_now w) (Fin 1000)))
             (num_or (opt_endTimestamp opts) (js_floor (js_div (Date_now w) (Fin 1000))))"
  using assms by (simp add: calculateTwap_def Let_def)

lemma getProvider_supported:
  assumes "CHAIN_CONFIG env chainId = Some config"
  shows "\<exists>provider. fst (getProvider js env c chainId r) = Inr provider"
  by (rule getProvider_cases [of c js chainId r env]) (use assms in auto)

lemma discoverConditionalPools_Inr:
  assumes "findPool env w p ch (yesCompany t) (yesCurrency t) = Inr yp"
    and "findPool env w p ch (noCompany t) (noCurrency t) = Inr np"
  shows "discoverConditionalPools env w p ch t = Inr \<lparr>yesPool = yp, noPool = np\<rparr>"
  using assms by (simp add: discoverConditionalPools_def Let_def)

lemma calculateTwap_with_missing:
  assumes d1: "valid_time (js_mul (js_sub endTs (js_mul dys (Fin 86400))) (Fin 1000))"
    and d2: "valid_time (js_mul endTs (Fin 1000))"
    and toks: "getProposalTokens w provider a = Inr toks"
    and yes: "findPool env w provider chainId (yesCompany toks) (yesCurrency toks) = Inr yp"
    and no: "findPool env w provider chainId (noCompany toks) (noCurrency toks) = Inr np"
    and missing: "yp = None \<or> np = None"
  shows "calculateTwap_with js env w provider a chainId config dys now endTs =
           Inr (MissingPools
             \<lparr>mp_proposalAddress = a,
              mp_chainId = chainId,
              mp_chain = cfg_name config,
              mp_marketName = marketName toks,
              mp_error = ''Could not find YES/NO conditional pools on-chain'',
              mp_pools = \<lparr>pa_yes = yp, pa_no = np\<rparr>,
              mp_tokens = \<lparr>ta_yesCompany = yesCompany toks, ta_noCompany = noCompany toks,
                            ta_yesCurrency = yesCurrency toks, ta_noCurrency = noCurrency toks,
                            ta_companyToken = companyToken toks,
                            ta_currencyToken = currencyToken toks\<rparr>\<rparr>)"
  using missing
  by (simp add: calculateTwap_with_def Let_def Date_toISOString_def d1 d2 toks
        discoverConditionalPools_Inr [OF yes no])

text \<open>
  C3. Take a call of \<^verbatim>\<open>calculateTwap\<close> on a supported chain that gets as far as the
  discovery of the pools (the two dates of the window are valid dates, the tokens of
  the proposal are resolved), and in which exactly one of the two conditional pools is
  found. The call returns, without raising, the object with the \<^verbatim>\<open>error\<close> member
  'Could not find YES/NO conditional pools on-chain', whose \<^verbatim>\<open>pools\<close> hold null for the
  missing pool and the address of the pool that was found, and whose \<^verbatim>\<open>tokens\<close> are the
  six resolved token addresses.
\<close>

theorem missing_pool_reported:
  assumes cfg: "CHAIN_CONFIG env chainId = Some config"
    and prov: "fst (getProvider js env c chainId (opt_rpcUrl opts)) = Inr provider"
    and now: "now = js_floor (js_div (Date_now w) (Fin 1000))"
    and endTs: "endTs = num_or (opt_endTimestamp opts) now"
    and start: "start = js_sub endTs (js_mul (num_or (opt_days opts) (Fin 5)) (Fin 86400))"
    and d1: "valid_time (js_mul start (Fin 1000))"
    and d2: "valid_time (js_mul endTs (Fin 1000))"
    and toks: "getProposalTokens w provider a = Inr toks"
    and yes: "findPool env w provider chainId (yesCompany toks) (yesCurrency toks) = Inr yp"
    and no: "findPool env w provider chainId (noCompany toks) (noCurrency toks) = Inr np"
    and one: "(yp = None) \<noteq> (np = None)"
  shows "fst (calculateTwap js env w c a chainId opts) =
           Inr (MissingPools
             \<lparr>mp_proposalAddress = a,
              mp_chainId = chainId,
              mp_chain = cfg_name config,
              mp_marketName = marketName toks,
              mp_error = ''Could not find YES/NO conditional pools on-chain'',
              mp_pools = \<lparr>pa_yes = yp, pa_no = np\<rparr>,
              mp_tokens = \<lparr>ta_yesCompany = yesCompany toks, ta_noCompany = noCompany toks,
                            ta_yesCurrency = yesCurrency toks, ta_noCurrency = noCurrency toks,
                            ta_companyToken = companyToken toks,
                            ta_currencyToken = currencyToken toks\<rparr>\<rparr>)"
proof -
  have m: "yp = None \<or> np = None"
    using one by auto
  show ?thesis
    unfolding calculateTwap_fst [OF cfg prov]
    using d1 d2 unfolding start endTs now
    by (rule calculateTwap_with_missing [OF _ _ toks yes no m])
qed

text \<open>
  The fixture without a YES pool: \<^verbatim>\<open>pools.yes\<close> is null, \<^verbatim>\<open>pools.no\<close> is pool 102.
\<close>

theorem missing_pool_reported_witness:
  "CHAIN_CONFIG test_env (Fin 100) = Some (the (CHAIN_CONFIG test_env (Fin 100))) \<and>
   fst (getProvider test_js test_env empty_cache (Fin 100) (opt_rpcUrl test_options))
     = Inr test_provider \<and>
   Fin 1738886400 = js_floor (js_div (Date_now world_without_yes_pool) (Fin 1000)) \<and>
   Fin 1738000000 = num_or (opt_endTimestamp test_options) (Fin 1738886400) \<and>
   Fin 1737568000
     = js_sub (Fin 1738000000) (js_mul (num_or (opt_days test_options) (Fin 5)) (Fin 86400)) \<and>
   valid_time (js_mul (Fin 1737568000) (Fin 1000)) \<and>
   valid_time (js_mul (Fin 1738000000) (Fin 1000)) \<and>
   getProposalTokens world_without_yes_pool test_provider test_proposal = Inr test_tokens \<and>
   findPool test_env world_without_yes_pool test_provider (Fin 100)
     (yesCompany test_tokens) (yesCurrency test_tokens) = Inr None \<and>
   findPool test_env world_without_yes_pool test_provider (Fin 100)
     (noCompany test_tokens) (noCurrency test_tokens) = Inr (Some 102) \<and>
   ((None :: address option) = None) \<noteq> (Some (102 :: address) = None) \<and>
   fst (calculateTwap test_js test_env world_without_yes_pool empty_cache test_proposal
          (Fin 100) test_options) =
     Inr (MissingPools
       \<lparr>mp_proposalAddress = test_proposal,
        mp_chainId = Fin 100,
        mp_chain = ''Gnosis'',
        mp_marketName = ''Test market'',
        mp_error = ''Could not find YES/NO conditional pools on-chain'',
        mp_pools = \<lparr>pa_yes = None, pa_no = Some 102\<rparr>,
        mp_tokens = \<lparr>ta_yesCompany = 11, ta_noCompany = 12,
                      ta_yesCurrency = 13, ta_noCurrency = 14,
                      ta_companyToken = 1, ta_currencyToken = 2\<rparr>\<rparr>)"
proof -
  have cfg: "CHAIN_CONFIG test_env (Fin 100) = Some (the (CHAIN_CONFIG test_env (Fin 100)))"
    by code_simp
  have prov: "fst (getProvider test_js test_env empty_cache (Fin 100) (opt_rpcUrl test_options))
                = Inr test_provider"
    by code_simp
  have now: "Fin 1738886400 = js_floor (js_div (Date_now world_without_yes_pool) (Fin 1000))"
    by code_simp
  have endTs: "Fin 1738000000 = num_or (opt_endTimestamp test_options) (Fin 1738886400)"
    by code_simp
  have start: "Fin 1737568000
     = js_sub (Fin 1738000000) (js_mul (num_or (opt_days test_options) (Fin 5)) (Fin 86400))"
    by code_simp
  have d1: "valid_time (js_mul (Fin 1737568000) (Fin 1000))"
    by code_simp
  have d2: "valid_time (js_mul (Fin 1738000000) (Fin 1000))"
    by code_simp
  have toks: "getProposalTokens world_without_yes_pool test_provider test_proposal
                = Inr test_tokens"
    by code_simp
  have yes: "findPool test_env world_without_yes_pool test_provider (Fin 100)
               (yesCompany test_tokens) (yesCurrency test_tokens) = Inr None"
    by code_simp
  have no: "findPool test_env world_without_yes_pool test_provider (Fin 100)
              (noCompany test_tokens) (noCurrency test_tokens) = Inr (Some 102)"
    by code_simp
  have one: "((None :: address option) = None) \<noteq> (Some (102 :: address) = None)"
    by simp
  have name: "cfg_name (the (CHAIN_CONFIG test_env (Fin 100))) = ''Gnosis''"
    by code_simp
  show ?thesis
    using cfg prov now endTs start d1 d2 toks yes no one
      missing_pool_reported [OF cfg prov now endTs start d1 d2 toks yes no one]
    unfolding name by (simp add: test_tokens_def)
qed

lemma first_rejected_mem: "es \<noteq> [] \<Longrightarrow> first_rejected w es \<in> set es"
  by (simp add: first_rejected_def)

lemma rejections_nonempty: "isl y \<or> isl n \<Longrightarrow> rejections [y, n] \<noteq> []"
  by (cases y; cases n) auto

lemma twap_step_failed:
  assumes "rejections
             [calculatePoolTwap js env w provider chainId ya
                (if stat = ''ENDED'' then dur else Math_min (js_sub now start) dur) yI,
              calculatePoolTwap js env w provider chainId na
                (if stat = ''ENDED'' then dur else Math_min (js_sub now start) dur) nI] \<noteq> []"
  shows "twap_step js env w provider chainId ya na yI nI stat now start endTs dur result =
           result\<lparr>error := Some (''TWAP calculation failed: '' @ message (first_rejected w
              (rejections
                [calculatePoolTwap js env w provider chainId ya
                   (if stat = ''ENDED'' then dur else Math_min (js_sub now start) dur) yI,
                 calculatePoolTwap js env w provider chainId na
                   (if stat = ''ENDED'' then dur else Math_min (js_sub now start) dur) nI])))\<rparr>"
  using assms by (simp add: twap_step_def Let_def)

lemma calculateTwap_with_step:
  assumes d1: "valid_time (js_mul (js_sub endTs (js_mul dys (Fin 86400))) (Fin 1000))"
    and d2: "valid_time (js_mul endTs (Fin 1000))"
    and toks: "getProposalTokens w provider a = Inr toks"
    and yes: "findPool env w provider chainId (yesCompany toks) (yesCurrency toks) = Inr (Some ya)"
    and no: "findPool env w provider chainId (noCompany toks) (noCurrency toks) = Inr (Some na)"
    and yi: "detectInversion w provider ya (yesCompany toks) = Inr yinv"
    and ni: "detectInversion w provider na (noCompany toks) = Inr ninv"
    and started: "twap_status now (js_sub endTs (js_mul dys (Fin 86400))) endTs \<noteq> ''NOT_STARTED''"
  shows "calculateTwap_with js env w provider a chainId config dys now endTs =
           Inr (Twap (twap_step js env w provider chainId ya na (shouldInvert yinv) (shouldInvert ninv)
                  (twap_status now (js_sub endTs (js_mul dys (Fin 86400))) endTs)
                  now (js_sub endTs (js_mul dys (Fin 86400))) endTs (js_mul dys (Fin 86400))
                  (build_result js w provider a chainId config toks ya na
                     (shouldInvert yinv) (shouldInvert ninv)
                     \<lparr>startTimestamp = js_sub endTs (js_mul dys (Fin 86400)),
                      startDate = iso_render js
                        (time_value (js_mul (js_sub endTs (js_mul dys (Fin 86400))) (Fin 1000))),
                      endTimestamp = endTs,
                      endDate = iso_render js (time_value (js_mul endTs (Fin 1000))),
                      days = dys,
                      durationSeconds = js_mul dys (Fin 86400)\<rparr>
                     (twap_status now (js_sub endTs (js_mul dys (Fin 86400))) endTs))))"
  using started
  by (simp add: calculateTwap_with_def Let_def Date_toISOString_def d1 d2 toks yi ni
        discoverConditionalPools_Inr [OF yes no])

text \<open>
  C4. Take a call of \<^verbatim>\<open>calculateTwap\<close> that reaches the TWAP step: the chain is
  supported, the dates of the window are valid, the tokens are resolved, both pools
  are found, both orientations are read, and the status is not \<^verbatim>\<open>NOT_STARTED\<close>. If one
  of the two calls of \<^verbatim>\<open>calculatePoolTwap\<close> fails, \<^verbatim>\<open>calculateTwap\<close> returns, without
  raising, the result built before the step with the \<^verbatim>\<open>error\<close> member
  'TWAP calculation failed: ' followed by the message of one of the failures: the
  tokens, the pools with their inversion flags, the window and the status are those
  resolved before, and there is no \<^verbatim>\<open>twap\<close> member.
\<close>

theorem twap_failure_keeps_partial_result:
  assumes cfg: "CHAIN_CONFIG env chainId = Some config"
    and prov: "fst (getProvider js env c chainId (opt_rpcUrl opts)) = Inr provider"
    and now: "now = js_floor (js_div (Date_now w) (Fin 1000))"
    and endTs: "endTs = num_or (opt_endTimestamp opts) now"
    and dys: "dys = num_or (opt_days opts) (Fin 5)"
    and dur: "dur = js_mul dys (Fin 86400)"
    and start: "start = js_sub endTs dur"
    and d1: "valid_time (js_mul start (Fin 1000))"
    and d2: "valid_time (js_mul endTs (Fin 1000))"
    and toks: "getProposalTokens w provider a = Inr toks"
    and yes: "findPool env w provider chainId (yesCompany toks) (yesCurrency toks) = Inr (Some ya)"
    and no: "findPool env w provider chainId (noCompany toks) (noCurrency toks) = Inr (Some na)"
    and yi: "detectInversion w provider ya (yesCompany toks) = Inr yinv"
    and ni: "detectInversion w provider na (noCompany toks) = Inr ninv"
    and stat: "stat = twap_status now start endTs"
    and started: "stat \<noteq> ''NOT_STARTED''"
    and ago: "secondsAgo = (if stat = ''ENDED'' then dur else Math_min (js_sub now start) dur)"
    and y: "y = calculatePoolTwap js env w provider chainId ya secondsAgo (shouldInvert yinv)"
    and n: "n = calculatePoolTwap js env w provider chainId na secondsAgo (shouldInvert ninv)"
    and fails: "isl y \<or> isl n"
  shows "\<exists>r. fst (calculateTwap js env w c a chainId opts) = Inr (Twap r) \<and>
           first_rejected w (rejections [y, n]) \<in> set (rejections [y, n]) \<and>
           error r = Some (''TWAP calculation failed: ''
                             @ message (first_rejected w (rejections [y, n]))) \<and>
           twap r = None \<and> timeRemaining r = None \<and> timeUntilStart r = None \<and>
           tokens r = \<lparr>rt_company = getTokenInfo w provider (companyToken toks),
                        rt_currency = getTokenInfo w provider (currencyToken toks),
                        rt_yesCompany = yesCompany toks, rt_noCompany = noCompany toks,
                        rt_yesCurrency = yesCurrency toks, rt_noCurrency = noCurrency toks\<rparr> \<and>
           pools r = \<lparr>pools_yes = \<lparr>pool_address = ya, pool_inverted = shouldInvert yinv\<rparr>,
                       pools_no = \<lparr>pool_address = na, pool_inverted = shouldInvert ninv\<rparr>\<rparr> \<and>
           twapWindow r = \<lparr>startTimestamp = start,
                            startDate = iso_render js (time_value (js_mul start (Fin 1000))),
                            endTimestamp = endTs,
                            endDate = iso_render js (time_value (js_mul endTs (Fin 1000))),
                            days = dys,
                            durationSeconds = dur\<rparr> \<and>
           status r = stat \<and>
           r_proposalAddress r = a \<and> r_chainId r = chainId \<and>
           r_chain r = cfg_name config \<and> r_marketName r = marketName toks"
proof -
  have ne: "rejections [y, n] \<noteq> []"
    using fails by (rule rejections_nonempty)
  have mem: "first_rejected w (rejections [y, n]) \<in> set (rejections [y, n])"
    using ne by (rule first_rejected_mem)
  have step: "fst (calculateTwap js env w c a chainId opts) =
      Inr (Twap (twap_step js env w provider chainId ya na (shouldInvert yinv) (shouldInvert ninv)
                   stat now start endTs dur
                   (build_result js w provider a chainId config toks ya na
                      (shouldInvert yinv) (shouldInvert ninv)
                      \<lparr>startTimestamp = start,
                       startDate = iso_render js (time_value (js_mul start (Fin 1000))),
                       endTimestamp = endTs,
                       endDate = iso_render js (time_value (js_mul endTs (Fin 1000))),
                       days = dys,
                       durationSeconds = dur\<rparr>
                      stat)))"
    unfolding calculateTwap_fst [OF cfg prov]
    using d1 d2 started unfolding stat start dur dys endTs now
    by (rule calculateTwap_with_step [OF _ _ toks yes no yi ni])
  have failed: "twap_step js env w provider chainId ya na (shouldInvert yinv) (shouldInvert ninv)
                   stat now start endTs dur result =
           result\<lparr>error := Some (''TWAP calculation failed: ''
                                    @ message (first_rejected w (rejections [y, n])))\<rparr>"
    for result
    using ne unfolding y n ago by (rule twap_step_failed)
  show ?thesis
    unfolding step failed using mem by (simp add: build_result_def)
qed

text \<open>
  The fixture with bad oracles: the YES price is not finite ('Invalid price from
  oracle'), the NO read is rejected, and the first rejection is reported.
\<close>

theorem twap_failure_keeps_partial_result_witness:
  "CHAIN_CONFIG test_env (Fin 100) = Some (the (CHAIN_CONFIG test_env (Fin 100))) \<and>
   fst (getProvider test_js test_env empty_cache (Fin 100) (opt_rpcUrl test_options))
     = Inr test_provider \<and>
   Fin 1738886400 = js_floor (js_div (Date_now world_with_bad_oracles) (Fin 1000)) \<and>
   Fin 1738000000 = num_or (opt_endTimestamp test_options) (Fin 1738886400) \<and>
   Fin 5 = num_or (opt_days test_options) (Fin 5) \<and>
   Fin 432000 = js_mul (Fin 5) (Fin 86400) \<and>
   Fin 1737568000 = js_sub (Fin 1738000000) (Fin 432000) \<and>
   valid_time (js_mul (Fin 1737568000) (Fin 1000)) \<and>
   valid_time (js_mul (Fin 1738000000) (Fin 1000)) \<and>
   getProposalTokens world_with_bad_oracles test_provider test_proposal = Inr test_tokens \<and>
   findPool test_env world_with_bad_oracles test_provider (Fin 100)
     (yesCompany test_tokens) (yesCurrency test_tokens) = Inr (Some 101) \<and>
   findPool test_env world_with_bad_oracles test_provider (Fin 100)
     (noCompany test_tokens) (noCurrency test_tokens) = Inr (Some 102) \<and>
   detectInversion world_with_bad_oracles test_provider 101 (yesCompany test_tokens)
     = Inr \<lparr>shouldInvert = False, token0 = 11\<rparr> \<and>
   detectInversion world_with_bad_oracles test_provider 102 (noCompany test_tokens)
     = Inr \<lparr>shouldInvert = True, token0 = 14\<rparr> \<and>
   ''ENDED'' = twap_status (Fin 1738886400) (Fin 1737568000) (Fin 1738000000) \<and>
   ''ENDED'' \<noteq> ''NOT_STARTED'' \<and>
   calculatePoolTwap test_js test_env world_with_bad_oracles test_provider (Fin 100) 101
     (Fin 432000) False = Inl (Error ''Invalid price from oracle'') \<and>
   calculatePoolTwap test_js test_env world_with_bad_oracles test_provider (Fin 100) 102
     (Fin 432000) True = Inl (Error ''call revert exception'') \<and>
   (\<exists>r. fst (calculateTwap test_js test_env world_with_bad_oracles empty_cache test_proposal
               (Fin 100) test_options) = Inr (Twap r) \<and>
        error r = Some ''TWAP calculation failed: Invalid price from oracle'' \<and>
        twap r = None \<and>
        pools r = \<lparr>pools_yes = \<lparr>pool_address = 101, pool_inverted = False\<rparr>,
                    pools_no = \<lparr>pool_address = 102, pool_inverted = True\<rparr>\<rparr> \<and>
        status r = ''ENDED'')"
proof -
  have cfg: "CHAIN_CONFIG test_env (Fin 100) = Some (the (CHAIN_CONFIG test_env (Fin 100)))"
    by code_simp
  have prov: "fst (getProvider test_js test_env empty_cache (Fin 100) (opt_rpcUrl test_options))
                = Inr test_provider"
    by code_simp
  have now: "Fin 1738886400 = js_floor (js_div (Date_now world_with_bad_oracles) (Fin 1000))"
    by code_simp
  have endTs: "Fin 1738000000 = num_or (opt_endTimestamp test_options) (Fin 1738886400)"
    by code_simp
  have dys: "Fin 5 = num_or (opt_days test_options) (Fin 5)"
    by code_simp
  have dur: "Fin 432000 = js_mul (Fin 5) (Fin 86400)"
    by code_simp
  have start: "Fin 1737568000 = js_sub (Fin 1738000000) (Fin 432000)"
    by code_simp
  have d1: "valid_time (js_mul (Fin 1737568000) (Fin 1000))"
    by code_simp
  have d2: "valid_time (js_mul (Fin 1738000000) (Fin 1000))"
    by code_simp
  have toks: "getProposalTokens world_with_bad_oracles test_provider test_proposal
                = Inr test_tokens"
    by code_simp
  have yes: "findPool test_env world_with_bad_oracles test_provider (Fin 100)
               (yesCompany test_tokens) (yesCurrency test_tokens) = Inr (Some 101)"
    by code_simp
  have no: "findPool test_env world_with_bad_oracles test_provider (Fin 100)
              (noCompany test_tokens) (noCurrency test_tokens) = Inr (Some 102)"
    by code_simp
  have yi: "detectInversion world_with_bad_oracles test_provider 101 (yesCompany test_tokens)
              = Inr \<lparr>shouldInvert = False, token0 = 11\<rparr>"
    by code_simp
  have ni: "detectInversion world_with_bad_oracles test_provider 102 (noCompany test_tokens)
              = Inr \<lparr>shouldInvert = True, token0 = 14\<rparr>"
    by code_simp
  have stat: "''ENDED'' = twap_status (Fin 1738886400) (Fin 1737568000) (Fin 1738000000)"
    by code_simp
  have started: "''ENDED'' \<noteq> ''NOT_STARTED''"
    by simp
  have ago: "Fin 432000 = (if ''ENDED'' = ''ENDED'' then Fin 432000
                           else Math_min (js_sub (Fin 1738886400) (Fin 1737568000)) (Fin 432000))"
    by simp
  have y: "Inl (Error ''Invalid price from oracle'')
             = calculatePoolTwap test_js test_env world_with_bad_oracles test_provider (Fin 100) 101
                 (Fin 432000) (shouldInvert \<lparr>shouldInvert = False, token0 = 11\<rparr>)"
    by code_simp
  have n: "Inl (Error ''call revert exception'')
             = calculatePoolTwap test_js test_env world_with_bad_oracles test_provider (Fin 100) 102
                 (Fin 432000) (shouldInvert \<lparr>shouldInvert = True, token0 = 14\<rparr>)"
    by code_simp
  have fails: "isl (Inl (Error ''Invalid price from oracle'') :: error + pool_twap)
                 \<or> isl (Inl (Error ''call revert exception'') :: error + pool_twap)"
    by simp
  have first: "first_rejected world_with_bad_oracles
                 [Error ''Invalid price from oracle'', Error ''call revert exception'']
               = Error ''Invalid price from oracle''"
    by code_simp
  from twap_failure_keeps_partial_result
         [OF cfg prov now endTs dys dur start d1 d2 toks yes no yi ni stat started ago y n fails]
  obtain r where
    r: "fst (calculateTwap test_js test_env world_with_bad_oracles empty_cache test_proposal
               (Fin 100) test_options) = Inr (Twap r)"
      "error r = Some (''TWAP calculation failed: ''
         @ message (first_rejected world_with_bad_oracles
             (rejections [Inl (Error ''Invalid price from oracle'') :: error + pool_twap,
                          Inl (Error ''call revert exception'')])))"
      "twap r = None"
      "pools r = \<lparr>pools_yes = \<lparr>pool_address = 101,
                                  pool_inverted = shouldInvert \<lparr>shouldInvert = False, token0 = 11\<rparr>\<rparr>,
                    pools_no = \<lparr>pool_address = 102,
                                 pool_inverted = shouldInvert \<lparr>shouldInvert = True, token0 = 14\<rparr>\<rparr>\<rparr>"
      "status r = ''ENDED''"
    by blast
  have ex: "\<exists>r. fst (calculateTwap test_js test_env world_with_bad_oracles empty_cache test_proposal
               (Fin 100) test_options) = Inr (Twap r) \<and>
        error r = Some ''TWAP calculation failed: Invalid price from oracle'' \<and>
        twap r = None \<and>
        pools r = \<lparr>pools_yes = \<lparr>pool_address = 101, pool_inverted = False\<rparr>,
                    pools_no = \<lparr>pool_address = 102, pool_inverted = True\<rparr>\<rparr> \<and>
        status r = ''ENDED''"
    using r by (intro exI [of _ r]) (simp add: first)
  show ?thesis
    using cfg prov now endTs dys dur start d1 d2 toks yes no yi ni stat started
      y [symmetric] n [symmetric] ex
    by simp
qed

subsection \<open>calculateTwap: the full result\<close>

lemma rejections_none: "rejections [y, n] = [] \<longleftrightarrow> (\<exists>a b. y = Inr a \<and> n = Inr b)"
  by (cases y; cases n) simp_all

lemma twap_step_pools:
  "pools (twap_step js env w p ch ya na yI nI stat now start endTs dur result) = pools result"
  by (simp add: twap_step_def Let_def)

lemma twap_step_twap:
  assumes "twap (twap_step js env w p ch ya na yI nI stat now start endTs dur result) = Some s"
    and "twap result = None"
  shows "\<exists>y n. calculatePoolTwap js env w p ch ya
                  (if stat = ''ENDED'' then dur else Math_min (js_sub now start) dur) yI = Inr y \<and>
               calculatePoolTwap js env w p ch na
                  (if stat = ''ENDED'' then dur else Math_min (js_sub now start) dur) nI = Inr n \<and>
               s = twap_summary_of js y n
                     (if stat = ''ENDED'' then dur else Math_min (js_sub now start) dur)"
proof -
  define sa where "sa = (if stat = ''ENDED'' then dur else Math_min (js_sub now start) dur)"
  define y where "y = calculatePoolTwap js env w p ch ya sa yI"
  define n where "n = calculatePoolTwap js env w p ch na sa nI"
  have step: "twap_step js env w p ch ya na yI nI stat now start endTs dur result =
     (if rejections [y, n] = [] then
        (if stat = ''ACTIVE'' then
           result\<lparr>twap := Some (twap_summary_of js (projr y) (projr n) sa),
                  timeRemaining := Some \<lparr>cd_seconds = js_sub endTs now,
                                         cd_human = formatDuration js (js_sub endTs now)\<rparr>\<rparr>
         else result\<lparr>twap := Some (twap_summary_of js (projr y) (projr n) sa)\<rparr>)
      else result\<lparr>error := Some (''TWAP calculation failed: ''
                                   @ message (first_rejected w (rejections [y, n])))\<rparr>)"
    unfolding y_def n_def sa_def by (simp add: twap_step_def Let_def)
  have none: "rejections [y, n] = []"
    using assms unfolding step by (auto split: if_splits)
  then obtain a b where ab: "y = Inr a" "n = Inr b"
    unfolding rejections_none by blast
  have "s = twap_summary_of js a b sa"
    using assms(1) none ab unfolding step by (auto split: if_splits)
  then show ?thesis
    using ab unfolding y_def n_def sa_def by blast
qed

lemma twap_step_succeeded:
  assumes "calculatePoolTwap js env w p ch ya
             (if stat = ''ENDED'' then dur else Math_min (js_sub now start) dur) yI = Inr y"
    and "calculatePoolTwap js env w p ch na
             (if stat = ''ENDED'' then dur else Math_min (js_sub now start) dur) nI = Inr n"
  shows "twap (twap_step js env w p ch ya na yI nI stat now start endTs dur result) =
           Some (twap_summary_of js y n
                   (if stat = ''ENDED'' then dur else Math_min (js_sub now start) dur))"
  using assms by (simp add: twap_step_def Let_def)

lemma windowSeconds_summary: "windowSeconds (twap_summary_of js y n sa) = sa"
  by (simp add: twap_summary_of_def Let_def)

text \<open>
  A full result of \<^verbatim>\<open>calculateTwap\<close> is the object built under "Build result", with
  the countdown when the window has not started, and after the TWAP step otherwise.
\<close>

lemma calculateTwap_with_Twap:
  assumes res: "calculateTwap_with js env w p a ch config dys now endTs = Inr (Twap r)"
  obtains toks ya na yI nI win where
    "r = (if twap_status now (js_sub endTs (js_mul dys (Fin 86400))) endTs = ''NOT_STARTED''
          then (build_result js w p a ch config toks ya na yI nI win
                  (twap_status now (js_sub endTs (js_mul dys (Fin 86400))) endTs))
               \<lparr>timeUntilStart :=
                  Some \<lparr>cd_seconds = js_sub (js_sub endTs (js_mul dys (Fin 86400))) now,
                        cd_human = formatDuration js
                          (js_sub (js_sub endTs (js_mul dys (Fin 86400))) now)\<rparr>\<rparr>
          else twap_step js env w p ch ya na yI nI
                 (twap_status now (js_sub endTs (js_mul dys (Fin 86400))) endTs)
                 now (js_sub endTs (js_mul dys (Fin 86400))) endTs (js_mul dys (Fin 86400))
                 (build_result js w p a ch config toks ya na yI nI win
                    (twap_status now (js_sub endTs (js_mul dys (Fin 86400))) endTs)))"
proof -
  define dur where "dur = js_mul dys (Fin 86400)"
  define start where "start = js_sub endTs dur"
  define stat where "stat = twap_status now start endTs"
  obtain startIso where s1: "Date_toISOString js (js_mul start (Fin 1000)) = Inr startIso"
    using res unfolding start_def dur_def
    by (cases "Date_toISOString js (js_mul (js_sub endTs (js_mul dys (Fin 86400))) (Fin 1000))")
       (simp_all add: calculateTwap_with_def Let_def)
  obtain endIso where s2: "Date_toISOString js (js_mul endTs (Fin 1000)) = Inr endIso"
    using res s1 unfolding start_def dur_def
    by (cases "Date_toISOString js (js_mul endTs (Fin 1000))")
       (simp_all add: calculateTwap_with_def Let_def)
  obtain toks where s3: "getProposalTokens w p a = Inr toks"
    using res s1 s2 unfolding start_def dur_def
    by (cases "getProposalTokens w p a") (simp_all add: calculateTwap_with_def Let_def)
  obtain found where s4: "discoverConditionalPools env w p ch toks = Inr found"
    using res s1 s2 s3 unfolding start_def dur_def
    by (cases "discoverConditionalPools env w p ch toks")
       (simp_all add: calculateTwap_with_def Let_def)
  have s5: "\<not> (yesPool found = None \<or> noPool found = None)"
  proof
    assume "yesPool found = None \<or> noPool found = None"
    then show False
      using res s1 s2 s3 s4 unfolding start_def dur_def
      by (simp add: calculateTwap_with_def Let_def)
  qed
  define ya where "ya = the (yesPool found)"
  define na where "na = the (noPool found)"
  define yv where "yv = detectInversion w p ya (yesCompany toks)"
  define nv where "nv = detectInversion w p na (noCompany toks)"
  define result where "result = build_result js w p a ch config toks ya na
      (shouldInvert (projr yv)) (shouldInvert (projr nv))
      \<lparr>startTimestamp = start, startDate = startIso, endTimestamp = endTs, endDate = endIso,
        days = dys, durationSeconds = dur\<rparr> stat"
  have body: "calculateTwap_with js env w p a ch config dys now endTs =
      (if rejections [yv, nv] \<noteq> [] then Inl (first_rejected w (rejections [yv, nv]))
       else if stat = ''NOT_STARTED'' then
         Inr (Twap (result\<lparr>timeUntilStart :=
                Some \<lparr>cd_seconds = js_sub start now,
                      cd_human = formatDuration js (js_sub start now)\<rparr>\<rparr>))
       else Inr (Twap (twap_step js env w p ch ya na (shouldInvert (projr yv))
                         (shouldInvert (projr nv)) stat now start endTs dur result)))"
    using s1 s2 s3 s4 s5
    unfolding result_def yv_def nv_def ya_def na_def stat_def start_def dur_def
    by (simp add: calculateTwap_with_def Let_def)
  have "r = (if stat = ''NOT_STARTED'' then
               result\<lparr>timeUntilStart :=
                 Some \<lparr>cd_seconds = js_sub start now,
                       cd_human = formatDuration js (js_sub start now)\<rparr>\<rparr>
             else twap_step js env w p ch ya na (shouldInvert (projr yv))
                    (shouldInvert (projr nv)) stat now start endTs dur result)"
    using res unfolding body by (auto split: if_splits)
  then show ?thesis
    unfolding result_def stat_def start_def dur_def by (rule that)
qed

lemma twap_step_status:
  "status (twap_step js env w p ch ya na yI nI stat now start endTs dur result) = status result"
  by (simp add: twap_step_def Let_def)

lemma calculateTwap_with_status:
  assumes "calculateTwap_with js env w p a ch config dys now endTs = Inr (Twap r)"
  shows "status r = twap_status now (js_sub endTs (js_mul dys (Fin 86400))) endTs"
  by (rule calculateTwap_with_Twap [OF assms])
     (simp add: twap_step_status build_result_def split: if_splits)

lemma calculateTwap_with_twap:
  assumes res: "calculateTwap_with js env w p a ch config dys now endTs = Inr (Twap r)"
    and tw: "twap r = Some s"
  shows "\<exists>y n. calculatePoolTwap js env w p ch (pool_address (pools_yes (pools r)))
                  (windowSeconds s) (pool_inverted (pools_yes (pools r))) = Inr y \<and>
               calculatePoolTwap js env w p ch (pool_address (pools_no (pools r)))
                  (windowSeconds s) (pool_inverted (pools_no (pools r))) = Inr n \<and>
               s = twap_summary_of js y n (windowSeconds s)"
proof (rule calculateTwap_with_Twap [OF res])
  fix toks ya na yI nI win
  define dur where "dur = js_mul dys (Fin 86400)"
  define start where "start = js_sub endTs dur"
  define stat where "stat = twap_status now start endTs"
  define result where "result = build_result js w p a ch config toks ya na yI nI win stat"
  assume "r = (if twap_status now (js_sub endTs (js_mul dys (Fin 86400))) endTs = ''NOT_STARTED''
          then (build_result js w p a ch config toks ya na yI nI win
                  (twap_status now (js_sub endTs (js_mul dys (Fin 86400))) endTs))
               \<lparr>timeUntilStart :=
                  Some \<lparr>cd_seconds = js_sub (js_sub endTs (js_mul dys (Fin 86400))) now,
                        cd_human = formatDuration js
                          (js_sub (js_sub endTs (js_mul dys (Fin 86400))) now)\<rparr>\<rparr>
          else twap_step js env w p ch ya na yI nI
                 (twap_status now (js_sub endTs (js_mul dys (Fin 86400))) endTs)
                 now (js_sub endTs (js_mul dys (Fin 86400))) endTs (js_mul dys (Fin 86400))
                 (build_result js w p a ch config toks ya na yI nI win
                    (twap_status now (js_sub endTs (js_mul dys (Fin 86400))) endTs)))"
  then have r': "r = (if stat = ''NOT_STARTED'' then
               result\<lparr>timeUntilStart :=
                 Some \<lparr>cd_seconds = js_sub start now,
                       cd_human = formatDuration js (js_sub start now)\<rparr>\<rparr>
             else twap_step js env w p ch ya na yI nI stat now start endTs dur result)"
    unfolding result_def stat_def start_def dur_def .
  have r0: "twap result = None" and p0: "pools result =
      \<lparr>pools_yes = \<lparr>pool_address = ya, pool_inverted = yI\<rparr>,
       pools_no = \<lparr>pool_address = na, pool_inverted = nI\<rparr>\<rparr>"
    by (simp_all add: result_def build_result_def)
  have r: "r = twap_step js env w p ch ya na yI nI stat now start endTs dur result"
    using tw r0 unfolding r' by (auto split: if_splits)
  define sa where "sa = (if stat = ''ENDED'' then dur else Math_min (js_sub now start) dur)"
  from twap_step_twap [OF tw [unfolded r] r0]
  obtain y n where yn:
    "calculatePoolTwap js env w p ch ya sa yI = Inr y"
    "calculatePoolTwap js env w p ch na sa nI = Inr n"
    "s = twap_summary_of js y n sa"
    unfolding sa_def by blast
  have ws: "windowSeconds s = sa"
    using yn(3) by (simp add: windowSeconds_summary)
  have pr: "pools r = \<lparr>pools_yes = \<lparr>pool_address = ya, pool_inverted = yI\<rparr>,
       pools_no = \<lparr>pool_address = na, pool_inverted = nI\<rparr>\<rparr>"
    unfolding r twap_step_pools by (rule p0)
  show ?thesis
    using yn unfolding ws pr by auto
qed

subsection \<open>Window status\<close>

lemma calculateTwap_status:
  assumes "fst (calculateTwap js env w c a ch opts) = Inr (Twap r)"
  shows "status r =
           twap_status (js_floor (js_div (Date_now w) (Fin 1000)))
             (js_sub (num_or (opt_endTimestamp opts) (js_floor (js_div (Date_now w) (Fin 1000))))
                (js_mul (num_or (opt_days opts) (Fin 5)) (Fin 86400)))
             (num_or (opt_endTimestamp opts) (js_floor (js_div (Date_now w) (Fin 1000))))"
proof -
  obtain config where cfg: "CHAIN_CONFIG env ch = Some config"
    using assms by (cases "CHAIN_CONFIG env ch") (simp_all add: calculateTwap_def)
  obtain provider where prov: "fst (getProvider js env c ch (opt_rpcUrl opts)) = Inr provider"
    using getProvider_supported [OF cfg] by blast
  have "calculateTwap_with js env w provider a ch config
          (num_or (opt_days opts) (Fin 5))
          (js_floor (js_div (Date_now w) (Fin 1000)))
          (num_or (opt_endTimestamp opts) (js_floor (js_div (Date_now w) (Fin 1000))))
        = Inr (Twap r)"
    using calculateTwap_fst [OF cfg prov] assms by simp
  then show ?thesis
    by (rule calculateTwap_with_status)
qed

text \<open>
  C5, in the form that holds of the code. The status of a full result of
  \<^verbatim>\<open>calculateTwap\<close> is computed from now, the current time in whole seconds, from end,
  the given \<^verbatim>\<open>endTimestamp\<close> or else now, and from start = end - days * 86400, where days
  is the given \<^verbatim>\<open>days\<close> or else 5. It is \<^verbatim>\<open>NOT_STARTED\<close> exactly when now < start; it is
  \<^verbatim>\<open>ENDED\<close> exactly when now >= end and not now < start; it is \<^verbatim>\<open>ACTIVE\<close> in the remaining
  case, in particular when start <= now < end. When start <= end every now >= end
  gives \<^verbatim>\<open>ENDED\<close>, so that at now = end the status is \<^verbatim>\<open>ENDED\<close>. When now >= end and
  now < start, which requires end < start, the status is \<^verbatim>\<open>NOT_STARTED\<close>.
\<close>

theorem status_by_precedence:
  "(twap_status now start e = ''NOT_STARTED'' \<longleftrightarrow> js_lt now start) \<and>
   (twap_status now start e = ''ENDED'' \<longleftrightarrow> \<not> js_lt now start \<and> js_ge now e) \<and>
   (twap_status now start e = ''ACTIVE'' \<longleftrightarrow> \<not> js_lt now start \<and> \<not> js_ge now e) \<and>
   (js_le start now \<and> js_lt now e \<longrightarrow> twap_status now start e = ''ACTIVE'') \<and>
   (js_le start e \<and> js_ge now e \<longrightarrow> twap_status now start e = ''ENDED'') \<and>
   (js_ge now e \<and> js_lt now start \<longrightarrow>
      twap_status now start e = ''NOT_STARTED'' \<and> js_lt e start) \<and>
   (\<forall>r. fst (calculateTwap js env w c a ch opts) = Inr (Twap r) \<longrightarrow>
      status r =
        twap_status (js_floor (js_div (Date_now w) (Fin 1000)))
          (js_sub (num_or (opt_endTimestamp opts) (js_floor (js_div (Date_now w) (Fin 1000))))
             (js_mul (num_or (opt_days opts) (Fin 5)) (Fin 86400)))
          (num_or (opt_endTimestamp opts) (js_floor (js_div (Date_now w) (Fin 1000)))))"
proof -
  have a: "js_le start now \<Longrightarrow> \<not> js_lt now start"
    by (simp add: js_le_def)
  have b: "js_lt now e \<Longrightarrow> \<not> js_ge now e"
    by (cases now; cases e) (auto simp: js_ge_def js_le_def)
  have c: "js_le start e \<Longrightarrow> js_ge now e \<Longrightarrow> \<not> js_lt now start"
    by (cases now; cases e; cases start) (auto simp: js_ge_def js_le_def)
  have d: "js_ge now e \<Longrightarrow> js_lt now start \<Longrightarrow> js_lt e start"
    by (cases now; cases e; cases start) (auto simp: js_ge_def js_le_def)
  have s: "(twap_status now start e = ''NOT_STARTED'' \<longleftrightarrow> js_lt now start) \<and>
   (twap_status now start e = ''ENDED'' \<longleftrightarrow> \<not> js_lt now start \<and> js_ge now e) \<and>
   (twap_status now start e = ''ACTIVE'' \<longleftrightarrow> \<not> js_lt now start \<and> \<not> js_ge now e)"
    by (auto simp: twap_status_def)
  show ?thesis
    using a b c d s calculateTwap_status [of js env w c a ch opts] by blast
qed

lemma test_calculateTwap_at_end:
  "\<exists>r. fst (calculateTwap test_js test_env test_world empty_cache test_proposal (Fin 100)
             (test_options\<lparr>opt_endTimestamp := None\<rparr>)) = Inr (Twap r)"
proof -
  have cfg: "CHAIN_CONFIG test_env (Fin 100) = Some (the (CHAIN_CONFIG test_env (Fin 100)))"
    by code_simp
  have prov: "fst (getProvider test_js test_env empty_cache (Fin 100)
                     (opt_rpcUrl (test_options\<lparr>opt_endTimestamp := None\<rparr>)))
                = Inr test_provider"
    by code_simp
  have now: "js_floor (js_div (Date_now test_world) (Fin 1000)) = Fin 1738886400"
    by code_simp
  have endTs: "num_or (opt_endTimestamp (test_options\<lparr>opt_endTimestamp := None\<rparr>))
                 (Fin 1738886400) = Fin 1738886400"
    by code_simp
  have dys: "num_or (opt_days (test_options\<lparr>opt_endTimestamp := None\<rparr>)) (Fin 5) = Fin 5"
    by code_simp
  have d1: "valid_time (js_mul (js_sub (Fin 1738886400) (js_mul (Fin 5) (Fin 86400))) (Fin 1000))"
    by code_simp
  have d2: "valid_time (js_mul (Fin 1738886400) (Fin 1000))"
    by code_simp
  have toks: "getProposalTokens test_world test_provider test_proposal = Inr test_tokens"
    by code_simp
  have yes: "findPool test_env test_world test_provider (Fin 100)
               (yesCompany test_tokens) (yesCurrency test_tokens) = Inr (Some 101)"
    by code_simp
  have no: "findPool test_env test_world test_provider (Fin 100)
              (noCompany test_tokens) (noCurrency test_tokens) = Inr (Some 102)"
    by code_simp
  have yi: "detectInversion test_world test_provider 101 (yesCompany test_tokens)
              = Inr \<lparr>shouldInvert = False, token0 = 11\<rparr>"
    by code_simp
  have ni: "detectInversion test_world test_provider 102 (noCompany test_tokens)
              = Inr \<lparr>shouldInvert = True, token0 = 14\<rparr>"
    by code_simp
  have started: "twap_status (Fin 1738886400)
                   (js_sub (Fin 1738886400) (js_mul (Fin 5) (Fin 86400))) (Fin 1738886400)
                 \<noteq> ''NOT_STARTED''"
    by code_simp
  show ?thesis
    using calculateTwap_fst [OF cfg prov, where w = test_world and a = test_proposal]
      calculateTwap_with_step [OF d1 d2 toks yes no yi ni started, where js = test_js
        and config = "the (CHAIN_CONFIG test_env (Fin 100))"]
    unfolding now endTs dys by simp
qed

text \<open>
  The fixture asked without an \<^verbatim>\<open>endTimestamp\<close>: the window of five days ends now, at
  1738886400, and the status of the result is \<^verbatim>\<open>ENDED\<close>.
\<close>

theorem status_by_precedence_witness:
  "js_le (js_sub (Fin 1738886400) (js_mul (Fin 5) (Fin 86400))) (Fin 1738886400) \<and>
   js_ge (Fin 1738886400) (Fin 1738886400) \<and>
   twap_status (Fin 1738886400) (js_sub (Fin 1738886400) (js_mul (Fin 5) (Fin 86400)))
     (Fin 1738886400) = ''ENDED'' \<and>
   (\<exists>r. fst (calculateTwap test_js test_env test_world empty_cache test_proposal (Fin 100)
              (test_options\<lparr>opt_endTimestamp := None\<rparr>)) = Inr (Twap r) \<and>
        status r = ''ENDED'')"
proof -
  have h: "js_le (js_sub (Fin 1738886400) (js_mul (Fin 5) (Fin 86400))) (Fin 1738886400) \<and>
           js_ge (Fin 1738886400) (Fin 1738886400)"
    by code_simp
  have now: "js_floor (js_div (Date_now test_world) (Fin 1000)) = Fin 1738886400"
    by code_simp
  have endTs: "num_or (opt_endTimestamp (test_options\<lparr>opt_endTimestamp := None\<rparr>))
                 (Fin 1738886400) = Fin 1738886400"
    by code_simp
  have dys: "num_or (opt_days (test_options\<lparr>opt_endTimestamp := None\<rparr>)) (Fin 5) = Fin 5"
    by code_simp
  note t = status_by_precedence [of "Fin 1738886400"
        "js_sub (Fin 1738886400) (js_mul (Fin 5) (Fin 86400))" "Fin 1738886400"
        test_js test_env test_world empty_cache test_proposal "Fin 100"
        "test_options\<lparr>opt_endTimestamp := None\<rparr>"]
  have ended: "twap_status (Fin 1738886400)
                 (js_sub (Fin 1738886400) (js_mul (Fin 5) (Fin 86400))) (Fin 1738886400)
               = ''ENDED''"
    using h t by blast
  obtain r where r: "fst (calculateTwap test_js test_env test_world empty_cache test_proposal
                            (Fin 100) (test_options\<lparr>opt_endTimestamp := None\<rparr>))
                       = Inr (Twap r)"
    using test_calculateTwap_at_end by blast
  have "status r = ''ENDED''"
    using t [THEN conjunct2, THEN conjunct2, THEN conjunct2, THEN conjunct2, THEN conjunct2,
             THEN conjunct2, rule_format, OF r]
    unfolding now endTs dys ended .
  then show ?thesis
    using h ended r by blast
qed

text \<open>
  With \<^verbatim>\<open>days = -1\<close> and \<^verbatim>\<open>endTimestamp = 1738886400\<close> the window starts at 1738972800,
  after its end. At now = end the first test of the chain, now < start, succeeds: the
  status is \<^verbatim>\<open>NOT_STARTED\<close> although now >= end.
\<close>

theorem status_negative_days_counterexample:
  "js_ge (Fin 1738886400) (Fin 1738886400) \<and>
   js_sub (Fin 1738886400) (js_mul (Fin (- 1)) (Fin 86400)) = Fin 1738972800 \<and>
   twap_status (Fin 1738886400) (js_sub (Fin 1738886400) (js_mul (Fin (- 1)) (Fin 86400)))
     (Fin 1738886400) = ''NOT_STARTED'' \<and>
   twap_status (Fin 1738886400) (js_sub (Fin 1738886400) (js_mul (Fin (- 1)) (Fin 86400)))
     (Fin 1738886400) \<noteq> ''ENDED''"
  by code_simp

subsection \<open>Winner determination\<close>

lemma winner_of_cases:
  "(winner_of s = ''YES'' \<longleftrightarrow> js_gt s (Fin lit_1e_8)) \<and>
   (winner_of s = ''NO'' \<longleftrightarrow> js_lt s (Fin (- lit_1e_8))) \<and>
   (winner_of s = ''TIE'' \<longleftrightarrow> \<not> js_gt s (Fin lit_1e_8) \<and> \<not> js_lt s (Fin (- lit_1e_8)))"
  using lit_1e_8_pos by (cases s) (auto simp: winner_of_def js_gt_def)

text \<open>
  C1. Whenever \<^verbatim>\<open>calculateTwap\<close> returns a result with a \<^verbatim>\<open>twap\<close> member, the two calls of
  \<^verbatim>\<open>calculatePoolTwap\<close> for the pools of the result, over the window of the member, have
  succeeded; the prices of the member are their normalized prices, the spread is the
  YES normalized price minus the NO normalized price, and the winner is \<^verbatim>\<open>'YES'\<close> exactly
  when the spread is greater than the double \<^verbatim>\<open>1e-8\<close>, \<^verbatim>\<open>'NO'\<close> exactly when it is less
  than \<^verbatim>\<open>-1e-8\<close>, and \<^verbatim>\<open>'TIE'\<close> otherwise; a spread of exactly \<^verbatim>\<open>1e-8\<close> is a tie.
\<close>

theorem winner_epsilon:
  assumes res: "fst (calculateTwap js env w c proposalAddress chainId opts) = Inr (Twap r)"
    and tw: "twap r = Some s"
  shows "(\<exists>provider yesTwap noTwap.
            fst (getProvider js env c chainId (opt_rpcUrl opts)) = Inr provider \<and>
            calculatePoolTwap js env w provider chainId (pool_address (pools_yes (pools r)))
              (windowSeconds s) (pool_inverted (pools_yes (pools r))) = Inr yesTwap \<and>
            calculatePoolTwap js env w provider chainId (pool_address (pools_no (pools r)))
              (windowSeconds s) (pool_inverted (pools_no (pools r))) = Inr noTwap \<and>
            price (twap_yes s) = normalizedPrice yesTwap \<and>
            price (twap_no s) = normalizedPrice noTwap \<and>
            spread s = js_sub (normalizedPrice yesTwap) (normalizedPrice noTwap)) \<and>
         spread s = js_sub (price (twap_yes s)) (price (twap_no s)) \<and>
         (winner s = ''YES'' \<longleftrightarrow> js_gt (spread s) (Fin lit_1e_8)) \<and>
         (winner s = ''NO'' \<longleftrightarrow> js_lt (spread s) (Fin (- lit_1e_8))) \<and>
         (winner s = ''TIE'' \<longleftrightarrow>
            \<not> js_gt (spread s) (Fin lit_1e_8) \<and> \<not> js_lt (spread s) (Fin (- lit_1e_8))) \<and>
         (spread s = Fin lit_1e_8 \<longrightarrow> winner s = ''TIE'') \<and>
         Fin lit_1e_8 = rnd (1 / 100000000)"
proof -
  obtain config where cfg: "CHAIN_CONFIG env chainId = Some config"
    using res by (cases "CHAIN_CONFIG env chainId") (simp_all add: calculateTwap_def)
  obtain provider where prov: "fst (getProvider js env c chainId (opt_rpcUrl opts)) = Inr provider"
    using getProvider_supported [OF cfg] by blast
  have "calculateTwap_with js env w provider proposalAddress chainId config
          (num_or (opt_days opts) (Fin 5))
          (js_floor (js_div (Date_now w) (Fin 1000)))
          (num_or (opt_endTimestamp opts) (js_floor (js_div (Date_now w) (Fin 1000))))
        = Inr (Twap r)"
    using calculateTwap_fst [OF cfg prov] res by simp
  from calculateTwap_with_twap [OF this tw]
  obtain y n where yn:
    "calculatePoolTwap js env w provider chainId (pool_address (pools_yes (pools r)))
       (windowSeconds s) (pool_inverted (pools_yes (pools r))) = Inr y"
    "calculatePoolTwap js env w provider chainId (pool_address (pools_no (pools r)))
       (windowSeconds s) (pool_inverted (pools_no (pools r))) = Inr n"
    "s = twap_summary_of js y n (windowSeconds s)"
    by blast
  have py: "price (twap_yes s) = normalizedPrice y"
    and pn: "price (twap_no s) = normalizedPrice n"
    and sp: "spread s = js_sub (normalizedPrice y) (normalizedPrice n)"
    and wn: "winner s = winner_of (spread s)"
    by (subst yn(3), simp add: twap_summary_of_def Let_def)+
  have t: "spread s = Fin lit_1e_8 \<longrightarrow> winner s = ''TIE''"
    unfolding wn using lit_1e_8_pos by (simp add: winner_of_def js_gt_def)
  have ex: "\<exists>provider yesTwap noTwap.
            fst (getProvider js env c chainId (opt_rpcUrl opts)) = Inr provider \<and>
            calculatePoolTwap js env w provider chainId (pool_address (pools_yes (pools r)))
              (windowSeconds s) (pool_inverted (pools_yes (pools r))) = Inr yesTwap \<and>
            calculatePoolTwap js env w provider chainId (pool_address (pools_no (pools r)))
              (windowSeconds s) (pool_inverted (pools_no (pools r))) = Inr noTwap \<and>
            price (twap_yes s) = normalizedPrice yesTwap \<and>
            price (twap_no s) = normalizedPrice noTwap \<and>
            spread s = js_sub (normalizedPrice yesTwap) (normalizedPrice noTwap)"
    using prov yn(1,2) py pn sp by blast
  have sp': "spread s = js_sub (price (twap_yes s)) (price (twap_no s))"
    using py pn sp by simp
  show ?thesis
    using ex sp' t winner_of_cases [of "spread s"] lit_1e_8_double unfolding wn by simp
qed

lemma test_read_101_window:
  "(if cfg_mode (the (CHAIN_CONFIG test_env (Fin 100))) = ''algebra''
    then read_getTimepoints test_world test_provider 101 [Fin (of_int 432000), Fin 0]
    else read_observe test_world test_provider 101 [Fin (of_int 432000), Fin 0])
     = Inr [1000, 3025000]"
  by code_simp

lemma test_read_102_window:
  "(if cfg_mode (the (CHAIN_CONFIG test_env (Fin 100))) = ''algebra''
    then read_getTimepoints test_world test_provider 102 [Fin (of_int 432000), Fin 0]
    else read_observe test_world test_provider 102 [Fin (of_int 432000), Fin 0])
     = Inr [1000, - 1295000]"
  by code_simp

lemma test_pow_7:
  "Math_pow test_js (Fin lit_1_0001) (Fin (of_int 7))
     = Fin (2253376546511609 / 2251799813685248)"
  by (simp add: test_js_def rat_pow_def lit_1_0001_def power_divide rnd_eval)

lemma test_twap_yes:
  "calculatePoolTwap test_js test_env test_world test_provider (Fin 100) 101 (Fin 432000) False
     = Inr \<lparr>rawPrice = Fin (2253376546511609 / 2251799813685248),
             normalizedPrice = Fin (2253376546511609 / 2251799813685248),
             averageTick = Fin 7, secondsWindow = Fin 432000, inverted = False\<rparr>"
proof -
  have W: "(1 :: int) \<le> 432000"
    by simp
  have win: "Math_max (Fin 1) (js_floor (Fin 432000)) = Fin (of_int 432000)"
    by (simp add: Math_max_def)
  have T: "Fin (of_int 7)
             = js_div (Number_of_BigInt (sint (3025000 :: 56 word) - sint (1000 :: 56 word)))
                 (Fin (of_int 432000))"
    using avg_tick_divides [OF W, of 7] by simp
  have pos: "\<not> js_le (Fin (2253376546511609 / 2251799813685248)) (Fin 0)"
    by (simp add: js_le_def)
  show ?thesis
    using calculatePoolTwap_window [OF test_config win test_read_101_window T, of test_js False]
    unfolding test_pow_7 using pos by simp
qed

lemma test_twap_no:
  "calculatePoolTwap test_js test_env test_world test_provider (Fin 100) 102 (Fin 432000) True
     = Inr \<lparr>rawPrice = Fin (9004497635306467 / 9007199254740992),
             normalizedPrice = Fin (4504950842371199 / 4503599627370496),
             averageTick = Fin (- 3), secondsWindow = Fin 432000, inverted = True\<rparr>"
proof -
  have W: "(1 :: int) \<le> 432000"
    by simp
  have win: "Math_max (Fin 1) (js_floor (Fin 432000)) = Fin (of_int 432000)"
    by (simp add: Math_max_def)
  have T: "Fin (of_int (- 3))
             = js_div (Number_of_BigInt (sint (- 1295000 :: 56 word) - sint (1000 :: 56 word)))
                 (Fin (of_int 432000))"
    using avg_tick_divides [OF W, of "- 3"] by simp
  have pos: "\<not> js_le (Fin (9004497635306467 / 9007199254740992)) (Fin 0)"
    by (simp add: js_le_def)
  show ?thesis
    using calculatePoolTwap_window [OF test_config win test_read_102_window T, of test_js True]
    unfolding test_pow_minus_3 reciprocal_minus_3 using pos by simp
qed

lemma test_spread:
  "js_sub (Fin (2253376546511609 / 2251799813685248)) (Fin (4504950842371199 / 4503599627370496))
     = Fin (1802250652019 / 4503599627370496)"
  by (simp add: js_sub_def rnd_eval)

text \<open>
  The fixture, asked after the end of its window of five days: the YES pool has the
  average tick 7 and the NO pool, which is inverted, the average tick -3. The spread
  is about 0.0004 and the winner is YES.
\<close>

theorem winner_epsilon_witness:
  "\<exists>r s. fst (calculateTwap test_js test_env test_world empty_cache test_proposal (Fin 100)
               test_options) = Inr (Twap r) \<and>
          twap r = Some s \<and>
          price (twap_yes s) = Fin (2253376546511609 / 2251799813685248) \<and>
          price (twap_no s) = Fin (4504950842371199 / 4503599627370496) \<and>
          spread s = Fin (1802250652019 / 4503599627370496) \<and>
          js_gt (spread s) (Fin lit_1e_8) \<and>
          winner s = ''YES''"
proof -
  have cfg: "CHAIN_CONFIG test_env (Fin 100) = Some (the (CHAIN_CONFIG test_env (Fin 100)))"
    by code_simp
  have prov: "fst (getProvider test_js test_env empty_cache (Fin 100) (opt_rpcUrl test_options))
                = Inr test_provider"
    by code_simp
  have now: "js_floor (js_div (Date_now test_world) (Fin 1000)) = Fin 1738886400"
    by code_simp
  have endTs: "num_or (opt_endTimestamp test_options) (Fin 1738886400) = Fin 1738000000"
    by code_simp
  have dys: "num_or (opt_days test_options) (Fin 5) = Fin 5"
    by code_simp
  have dur: "js_mul (Fin 5) (Fin 86400) = Fin 432000"
    by code_simp
  have start: "js_sub (Fin 1738000000) (Fin 432000) = Fin 1737568000"
    by code_simp
  have d1: "valid_time (js_mul (js_sub (Fin 1738000000) (js_mul (Fin 5) (Fin 86400))) (Fin 1000))"
    by code_simp
  have d2: "valid_time (js_mul (Fin 1738000000) (Fin 1000))"
    by code_simp
  have toks: "getProposalTokens test_world test_provider test_proposal = Inr test_tokens"
    by code_simp
  have yes: "findPool test_env test_world test_provider (Fin 100)
               (yesCompany test_tokens) (yesCurrency test_tokens) = Inr (Some 101)"
    by code_simp
  have no: "findPool test_env test_world test_provider (Fin 100)
              (noCompany test_tokens) (noCurrency test_tokens) = Inr (Some 102)"
    by code_simp
  have yi: "detectInversion test_world test_provider 101 (yesCompany test_tokens)
              = Inr \<lparr>shouldInvert = False, token0 = 11\<rparr>"
    by code_simp
  have ni: "detectInversion test_world test_provider 102 (noCompany test_tokens)
              = Inr \<lparr>shouldInvert = True, token0 = 14\<rparr>"
    by code_simp
  have stat: "twap_status (Fin 1738886400) (js_sub (Fin 1738000000) (js_mul (Fin 5) (Fin 86400)))
                (Fin 1738000000) = ''ENDED''"
    by code_simp
  have started: "twap_status (Fin 1738886400)
                   (js_sub (Fin 1738000000) (js_mul (Fin 5) (Fin 86400))) (Fin 1738000000)
                 \<noteq> ''NOT_STARTED''"
    unfolding stat by simp
  have ended: "twap_status (Fin 1738886400) (Fin 1737568000) (Fin 1738000000) = ''ENDED''"
    by code_simp
  define r where "r = twap_step test_js test_env test_world test_provider (Fin 100) 101 102
      (shouldInvert \<lparr>shouldInvert = False, token0 = 11\<rparr>)
      (shouldInvert \<lparr>shouldInvert = True, token0 = 14\<rparr>)
      ''ENDED'' (Fin 1738886400) (Fin 1737568000) (Fin 1738000000) (Fin 432000)
      (build_result test_js test_world test_provider test_proposal (Fin 100)
         (the (CHAIN_CONFIG test_env (Fin 100))) test_tokens 101 102
         (shouldInvert \<lparr>shouldInvert = False, token0 = 11\<rparr>)
         (shouldInvert \<lparr>shouldInvert = True, token0 = 14\<rparr>)
         \<lparr>startTimestamp = Fin 1737568000,
          startDate = iso_render test_js (time_value (js_mul (Fin 1737568000) (Fin 1000))),
          endTimestamp = Fin 1738000000,
          endDate = iso_render test_js (time_value (js_mul (Fin 1738000000) (Fin 1000))),
          days = Fin 5,
          durationSeconds = Fin 432000\<rparr>
         ''ENDED'')"
  define s where "s = twap_summary_of test_js
      \<lparr>rawPrice = Fin (2253376546511609 / 2251799813685248),
       normalizedPrice = Fin (2253376546511609 / 2251799813685248),
       averageTick = Fin 7, secondsWindow = Fin 432000, inverted = False\<rparr>
      \<lparr>rawPrice = Fin (9004497635306467 / 9007199254740992),
       normalizedPrice = Fin (4504950842371199 / 4503599627370496),
       averageTick = Fin (- 3), secondsWindow = Fin 432000, inverted = True\<rparr>
      (Fin 432000)"
  have res: "fst (calculateTwap test_js test_env test_world empty_cache test_proposal (Fin 100)
                    test_options) = Inr (Twap r)"
    using calculateTwap_fst [OF cfg prov, where w = test_world and a = test_proposal]
      calculateTwap_with_step [OF d1 d2 toks yes no yi ni started, where js = test_js
        and config = "the (CHAIN_CONFIG test_env (Fin 100))"]
    unfolding now endTs dys stat dur start ended r_def by simp
  have y: "calculatePoolTwap test_js test_env test_world test_provider (Fin 100) 101
             (if ''ENDED'' = ''ENDED'' then Fin 432000
              else Math_min (js_sub (Fin 1738886400) (Fin 1737568000)) (Fin 432000))
             (shouldInvert \<lparr>shouldInvert = False, token0 = 11\<rparr>)
           = Inr \<lparr>rawPrice = Fin (2253376546511609 / 2251799813685248),
                   normalizedPrice = Fin (2253376546511609 / 2251799813685248),
                   averageTick = Fin 7, secondsWindow = Fin 432000, inverted = False\<rparr>"
    using test_twap_yes by simp
  have n: "calculatePoolTwap test_js test_env test_world test_provider (Fin 100) 102
             (if ''ENDED'' = ''ENDED'' then Fin 432000
              else Math_min (js_sub (Fin 1738886400) (Fin 1737568000)) (Fin 432000))
             (shouldInvert \<lparr>shouldInvert = True, token0 = 14\<rparr>)
           = Inr \<lparr>rawPrice = Fin (9004497635306467 / 9007199254740992),
                   normalizedPrice = Fin (4504950842371199 / 4503599627370496),
                   averageTick = Fin (- 3), secondsWindow = Fin 432000, inverted = True\<rparr>"
    using test_twap_no by simp
  have tw: "twap r = Some s"
    unfolding r_def s_def using twap_step_succeeded [OF y n] by simp
  have py: "price (twap_yes s) = Fin (2253376546511609 / 2251799813685248)"
    and pn: "price (twap_no s) = Fin (4504950842371199 / 4503599627370496)"
    by (simp_all add: s_def twap_summary_of_def Let_def)
  note t = winner_epsilon [OF res tw]
  have sp: "spread s = Fin (1802250652019 / 4503599627370496)"
    using t [THEN conjunct2, THEN conjunct1] unfolding py pn test_spread .
  have gt: "js_gt (spread s) (Fin lit_1e_8)"
    unfolding sp by (simp add: js_gt_def lit_1e_8_def)
  have wn: "winner s = ''YES''"
    using t [THEN conjunct2, THEN conjunct2, THEN conjunct1] gt by blast
  show ?thesis
    using res tw py pn sp gt wn by blast
qed

subsection \<open>Falsy options\<close>

text \<open>
  C10. \<^verbatim>\<open>calculateTwap\<close> with \<^verbatim>\<open>options.days = 0\<close> does what it does without
  \<^verbatim>\<open>days\<close>, which is what it does with \<^verbatim>\<open>days = 5\<close>; with \<^verbatim>\<open>options.endTimestamp = 0\<close>
  it does what it does without \<^verbatim>\<open>endTimestamp\<close>, which is what it does with the
  current time in seconds as \<^verbatim>\<open>endTimestamp\<close>. The result and the cache are the same.
\<close>

theorem falsy_options_absent:
  "calculateTwap js env w c a ch (opts\<lparr>opt_days := Some (Fin 0)\<rparr>)
     = calculateTwap js env w c a ch (opts\<lparr>opt_days := None\<rparr>) \<and>
   calculateTwap js env w c a ch (opts\<lparr>opt_days := None\<rparr>)
     = calculateTwap js env w c a ch (opts\<lparr>opt_days := Some (Fin 5)\<rparr>) \<and>
   calculateTwap js env w c a ch (opts\<lparr>opt_endTimestamp := Some (Fin 0)\<rparr>)
     = calculateTwap js env w c a ch (opts\<lparr>opt_endTimestamp := None\<rparr>) \<and>
   calculateTwap js env w c a ch (opts\<lparr>opt_endTimestamp := None\<rparr>)
     = calculateTwap js env w c a ch
         (opts\<lparr>opt_endTimestamp := Some (js_floor (js_div (Date_now w) (Fin 1000)))\<rparr>)"
  by (cases "CHAIN_CONFIG env ch") (simp_all add: calculateTwap_def truthy_def Let_def)

end
